theory Spec2Isabelle
  imports Main "HOL-Library.Multiset" "HOL-Library.Sublist"
begin

section \<open>Text and JSON, as the database layer uses them\<close>

text \<open>
  A Python \<open>str\<close> held by the game or stored in a TEXT column is a \<open>string\<close>; each
  \<open>char\<close> stands for the code point of the same number (0 to 255).  A string read back
  by \<open>json.loads\<close> is a list of code points (\<open>nat list\<close>), since a \<open>\uXXXX\<close> escape in
  stored text can name any 16-bit unit.  Integers are Python's unbounded \<open>int\<close>; the
  integer attributes the game delivers fit SQLite's 64-bit INTEGER, so binding them
  never fails.
\<close>

text \<open>
  What the code leaves to the interpreter it runs in: the limit on the digits of an
  integer read from text (\<open>sys.get_int_max_str_digits()\<close>, 0 for none, 4300 by
  default), the number of nested calls still free when \<open>json.loads\<close> is entered
  (of \<open>sys.getrecursionlimit()\<close>, 1000 by default), and the decoding that
  \<open>json.loads\<close> applies to a \<open>bytes\<close> argument
  (\<open>b.decode(detect_encoding(b), 'surrogatepass')\<close>, \<open>None\<close> where it raises).
\<close>

record interp =
  int_max_str_digits :: nat
  recursion_depth :: nat
  bytes_decode :: "string \<Rightarrow> string option"

abbreviation DQ :: char where "DQ \<equiv> CHR 0x22"
abbreviation BS :: char where "BS \<equiv> CHR 0x5C"

datatype json =
    JNull
  | JBool bool
  | JInt int
  | JFloat string
  | JStr "nat list"
  | JArr "json list"
  | JObj "(nat list \<times> json) list"

text \<open>
  \<open>JFloat\<close> carries the numeric literal a Python float was read from (\<open>NaN\<close>,
  \<open>Infinity\<close> and \<open>-Infinity\<close> included); float arithmetic is not modelled.
  A \<open>JObj\<close> is a Python dict: an association list in insertion order.
\<close>

text \<open>
  The exceptions that occur.  \<open>OutOfFuel\<close> is no exception: it is the answer of the
  scanner below when its call bound is used up, which \<open>json_loads\<close> never is.
\<close>

datatype py_error =
    JSONDecodeError
  | ValueError
  | OverflowError
  | TypeError
  | RecursionError
  | UnicodeDecodeError
  | OperationalError
  | OutOfFuel

subsection \<open>\<open>json.dumps\<close> at the two types it is called with\<close>

definition hexdigit :: "nat \<Rightarrow> char" where
  "hexdigit n = (if n < 10 then char_of (48 + n) else char_of (87 + n))"

definition hex4 :: "nat \<Rightarrow> string" where
  "hex4 n = [hexdigit (n div 4096 mod 16), hexdigit (n div 256 mod 16),
             hexdigit (n div 16 mod 16), hexdigit (n mod 16)]"

text \<open>\<open>ESCAPE_ASCII\<close> with \<open>ESCAPE_DCT\<close>: everything outside space..tilde is escaped.\<close>

definition escape_char :: "char \<Rightarrow> string" where
  "escape_char c =
     (if c = DQ then [BS, DQ]
      else if c = BS then [BS, BS]
      else if c = CHR 0x0A then [BS, CHR ''n'']
      else if c = CHR 0x0D then [BS, CHR ''r'']
      else if c = CHR 0x09 then [BS, CHR ''t'']
      else if c = CHR 0x08 then [BS, CHR ''b'']
      else if c = CHR 0x0C then [BS, CHR ''f'']
      else if (32::nat) \<le> of_char c \<and> of_char c \<le> (126::nat) then [c]
      else BS # CHR ''u'' # hex4 (of_char c))"

definition encode_basestring_ascii :: "string \<Rightarrow> string" where
  "encode_basestring_ascii s = DQ # concat (map escape_char s) @ [DQ]"

fun digits :: "nat \<Rightarrow> string" where
  "digits n = (if n < 10 then [char_of (48 + n)]
               else digits (n div 10) @ [char_of (48 + n mod 10)])"

declare digits.simps [simp del]

definition str_int :: "int \<Rightarrow> string" where
  "str_int i = (if i < 0 then CHR ''-'' # digits (nat (- i)) else digits (nat i))"

fun join :: "string \<Rightarrow> string list \<Rightarrow> string" where
  "join sep [] = []"
| "join sep [x] = x"
| "join sep (x # y # ys) = x @ sep @ join sep (y # ys)"

definition dumps_item :: "string \<times> int \<Rightarrow> string" where
  "dumps_item kv = encode_basestring_ascii (fst kv) @ '': '' @ str_int (snd kv)"

definition json_dumps_dict :: "(string \<times> int) list \<Rightarrow> string" where
  "json_dumps_dict d = ''{'' @ join '', '' (map dumps_item d) @ ''}''"

definition json_dumps_list :: "string list \<Rightarrow> string" where
  "json_dumps_list l = ''['' @ join '', '' (map encode_basestring_ascii l) @ '']''"

subsection \<open>\<open>json.loads\<close>\<close>

definition ws :: "char \<Rightarrow> bool" where
  "ws c = (c = CHR '' '' \<or> c = CHR 0x09 \<or> c = CHR 0x0A \<or> c = CHR 0x0D)"

definition skip_ws :: "string \<Rightarrow> string" where
  "skip_ws cs = dropWhile ws cs"

definition is_digit :: "char \<Rightarrow> bool" where
  "is_digit c = ((48::nat) \<le> of_char c \<and> of_char c \<le> (57::nat))"

definition digit_val :: "char \<Rightarrow> nat" where
  "digit_val c = of_char c - 48"

definition hexval :: "char \<Rightarrow> nat option" where
  "hexval c =
     (let n = (of_char c :: nat) in
      if 48 \<le> n \<and> n \<le> 57 then Some (n - 48)
      else if 97 \<le> n \<and> n \<le> 102 then Some (n - 87)
      else if 65 \<le> n \<and> n \<le> 70 then Some (n - 55)
      else None)"

fun decode_uXXXX :: "string \<Rightarrow> nat option" where
  "decode_uXXXX (a # b # c # d # rest) =
     (case hexval a of None \<Rightarrow> None | Some x3 \<Rightarrow>
       (case hexval b of None \<Rightarrow> None | Some x2 \<Rightarrow>
         (case hexval c of None \<Rightarrow> None | Some x1 \<Rightarrow>
           (case hexval d of None \<Rightarrow> None | Some x0 \<Rightarrow>
              Some (x3 * 4096 + x2 * 256 + x1 * 16 + x0)))))"
| "decode_uXXXX _ = None"

definition BACKSLASH :: "char \<Rightarrow> nat option" where
  "BACKSLASH e =
     (if e = DQ then Some 0x22
      else if e = BS then Some 0x5C
      else if e = CHR ''/'' then Some 0x2F
      else if e = CHR ''b'' then Some 0x08
      else if e = CHR ''f'' then Some 0x0C
      else if e = CHR ''n'' then Some 0x0A
      else if e = CHR ''r'' then Some 0x0D
      else if e = CHR ''t'' then Some 0x09
      else None)"

definition cons_char :: "nat \<Rightarrow> (nat list \<times> string) option \<Rightarrow> (nat list \<times> string) option" where
  "cons_char u r = (case r of None \<Rightarrow> None | Some (s, rest) \<Rightarrow> Some (u # s, rest))"

text \<open>
  \<open>scanstring\<close> starts after the opening quote and returns the decoded string with
  the text after the closing quote; \<open>None\<close> is a \<open>JSONDecodeError\<close> (unterminated
  string, control character under \<open>strict\<close>, bad escape).
\<close>

fun scanstring :: "string \<Rightarrow> (nat list \<times> string) option" where
  "scanstring [] = None"
| "scanstring (c # cs) =
     (if c = DQ then Some ([], cs)
      else if c = BS then
        (case cs of
           [] \<Rightarrow> None
         | e # es \<Rightarrow>
             if e = CHR ''u'' then
               (case decode_uXXXX es of
                  None \<Rightarrow> None
                | Some uni \<Rightarrow>
                    if 0xD800 \<le> uni \<and> uni \<le> 0xDBFF \<and> take 2 (drop 4 es) = [BS, CHR ''u''] then
                      (case decode_uXXXX (drop 6 es) of
                         None \<Rightarrow> None
                       | Some uni2 \<Rightarrow>
                           if 0xDC00 \<le> uni2 \<and> uni2 \<le> 0xDFFF
                           then cons_char (0x10000 + ((uni - 0xD800) * 1024 + (uni2 - 0xDC00)))
                                  (scanstring (drop 10 es))
                           else cons_char uni (scanstring (drop 4 es)))
                    else cons_char uni (scanstring (drop 4 es)))
             else
               (case BACKSLASH e of
                  None \<Rightarrow> None
                | Some ch \<Rightarrow> cons_char ch (scanstring es)))
      else if (of_char c :: nat) < 0x20 then None
      else cons_char (of_char c) (scanstring cs))"

definition nat_of_digits :: "string \<Rightarrow> nat" where
  "nat_of_digits ds = foldl (\<lambda>a c. a * 10 + digit_val c) 0 ds"

text \<open>The integer part of \<open>NUMBER_RE\<close>: \<open>0\<close> or a non-zero digit and more digits.\<close>

definition match_int :: "string \<Rightarrow> (string \<times> string) option" where
  "match_int cs =
     (case cs of
        [] \<Rightarrow> None
      | d # r \<Rightarrow>
          if \<not> is_digit d then None
          else if d = CHR ''0'' then Some ([d], r)
          else Some (d # takeWhile is_digit r, dropWhile is_digit r))"

definition match_frac :: "string \<Rightarrow> string \<times> string" where
  "match_frac cs =
     (case cs of
        p # q # r \<Rightarrow>
          if p = CHR ''.'' \<and> is_digit q
          then (p # q # takeWhile is_digit r, dropWhile is_digit r)
          else ([], cs)
      | _ \<Rightarrow> ([], cs))"

definition match_exp :: "string \<Rightarrow> string \<times> string" where
  "match_exp cs =
     (case cs of
        [] \<Rightarrow> ([], cs)
      | e # r \<Rightarrow>
          if e = CHR ''e'' \<or> e = CHR ''E'' then
            (case r of
               [] \<Rightarrow> ([], cs)
             | s # r' \<Rightarrow>
                 if is_digit s then (e # s # takeWhile is_digit r', dropWhile is_digit r')
                 else if s = CHR ''+'' \<or> s = CHR ''-'' then
                   (case r' of
                      [] \<Rightarrow> ([], cs)
                    | q # r'' \<Rightarrow>
                        if is_digit q
                        then (e # s # q # takeWhile is_digit r'', dropWhile is_digit r'')
                        else ([], cs))
                 else ([], cs))
          else ([], cs))"

text \<open>
  The limit on integer digits: a conversion of more than 640 digits raises
  \<open>ValueError\<close> when a limit is set and the digits exceed it.
\<close>

definition too_many_digits :: "interp \<Rightarrow> nat \<Rightarrow> bool" where
  "too_many_digits py n = (640 < n \<and> 0 < int_max_str_digits py \<and> int_max_str_digits py < n)"

text \<open>
  \<open>NUMBER_RE\<close> at the head of the text: \<open>None\<close> where it does not match, else
  the number (or the \<open>ValueError\<close> of the conversion of its integer digits) and
  the text after it.
\<close>

definition match_number :: "interp \<Rightarrow> string \<Rightarrow> (py_error + json \<times> string) option" where
  "match_number py cs =
     (let neg = (cs \<noteq> [] \<and> hd cs = CHR ''-'');
          r0 = (if neg then tl cs else cs)
      in case match_int r0 of
           None \<Rightarrow> None
         | Some (ds, r1) \<Rightarrow>
             (case match_frac r1 of (frac, r2) \<Rightarrow>
               (case match_exp r2 of (ex, r3) \<Rightarrow>
                  if frac = [] \<and> ex = [] then
                    (if too_many_digits py (length ds) then Some (Inl ValueError)
                     else Some (Inr (JInt (if neg then - int (nat_of_digits ds)
                                           else int (nat_of_digits ds)), r3)))
                  else Some (Inr (JFloat ((if neg then ''-'' else []) @ ds @ frac @ ex), r3)))))"

fun dict_setitem :: "'k \<Rightarrow> 'v \<Rightarrow> ('k \<times> 'v) list \<Rightarrow> ('k \<times> 'v) list" where
  "dict_setitem k v [] = [(k, v)]"
| "dict_setitem k v (p # ps) = (if fst p = k then (k, v) # ps else p # dict_setitem k v ps)"

text \<open>\<open>dict(pairs)\<close>: a repeated key keeps its first position and its last value.\<close>

definition dict_of_pairs :: "('k \<times> 'v) list \<Rightarrow> ('k \<times> 'v) list" where
  "dict_of_pairs ps = foldl (\<lambda>d kv. dict_setitem (fst kv) (snd kv) d) [] ps"

text \<open>
  The scanner.  \<open>scan_once\<close> reads one value at the head of the text,
  \<open>parse_array\<close> is the loop of \<open>JSONArray\<close> (entered where an element starts) and
  \<open>parse_object\<close> the loop of \<open>JSONObject\<close> (entered after the opening quote of a
  key).  The first argument bounds the number of calls; \<open>json_loads\<close> passes enough.
  The second is the number of nested calls still free: entering an array or an
  object takes one, and \<open>RecursionError\<close> is raised where none is left.
\<close>

fun scan_once :: "nat \<Rightarrow> nat \<Rightarrow> interp \<Rightarrow> string \<Rightarrow> py_error + (json \<times> string)"
  and parse_array :: "nat \<Rightarrow> nat \<Rightarrow> interp \<Rightarrow> string \<Rightarrow> json list \<Rightarrow> py_error + (json \<times> string)"
  and parse_object ::
    "nat \<Rightarrow> nat \<Rightarrow> interp \<Rightarrow> string \<Rightarrow> (nat list \<times> json) list \<Rightarrow> py_error + (json \<times> string)"
  where
  "scan_once 0 depth py cs = Inl OutOfFuel"
| "scan_once (Suc n) depth py cs =
     (case cs of
        [] \<Rightarrow> Inl JSONDecodeError
      | c # rest \<Rightarrow>
          if c = DQ then
            (case scanstring rest of
               None \<Rightarrow> Inl JSONDecodeError
             | Some (s, r) \<Rightarrow> Inr (JStr s, r))
          else if c = CHR ''{'' then
            (if depth = 0 then Inl RecursionError
             else
               (case skip_ws rest of
                  [] \<Rightarrow> Inl JSONDecodeError
                | d # r \<Rightarrow>
                    if d = CHR ''}'' then Inr (JObj [], r)
                    else if d = DQ then parse_object n (depth - 1) py r []
                    else Inl JSONDecodeError))
          else if c = CHR ''['' then
            (if depth = 0 then Inl RecursionError
             else
               (case skip_ws rest of
                  [] \<Rightarrow> Inl JSONDecodeError
                | d # r \<Rightarrow>
                    if d = CHR '']'' then Inr (JArr [], r)
                    else parse_array n (depth - 1) py (d # r) []))
          else if take 4 cs = ''null'' then Inr (JNull, drop 4 cs)
          else if take 4 cs = ''true'' then Inr (JBool True, drop 4 cs)
          else if take 5 cs = ''false'' then Inr (JBool False, drop 5 cs)
          else
            (case match_number py cs of
               Some r \<Rightarrow> r
             | None \<Rightarrow>
                 if take 3 cs = ''NaN'' then Inr (JFloat ''NaN'', drop 3 cs)
                 else if take 8 cs = ''Infinity'' then Inr (JFloat ''Infinity'', drop 8 cs)
                 else if take 9 cs = ''-Infinity'' then Inr (JFloat ''-Infinity'', drop 9 cs)
                 else Inl JSONDecodeError))"
| "parse_array 0 depth py cs acc = Inl OutOfFuel"
| "parse_array (Suc n) depth py cs acc =
     (case scan_once n depth py cs of
        Inl e \<Rightarrow> Inl e
      | Inr (v, r) \<Rightarrow>
          (case skip_ws r of
             [] \<Rightarrow> Inl JSONDecodeError
           | d # r2 \<Rightarrow>
               if d = CHR '']'' then Inr (JArr (acc @ [v]), r2)
               else if d = CHR '','' then parse_array n depth py (skip_ws r2) (acc @ [v])
               else Inl JSONDecodeError))"
| "parse_object 0 depth py cs acc = Inl OutOfFuel"
| "parse_object (Suc n) depth py cs acc =
     (case scanstring cs of
        None \<Rightarrow> Inl JSONDecodeError
      | Some (key, r) \<Rightarrow>
          (case skip_ws r of
             [] \<Rightarrow> Inl JSONDecodeError
           | c # r2 \<Rightarrow>
               if c \<noteq> CHR '':'' then Inl JSONDecodeError
               else
                 (case scan_once n depth py (skip_ws r2) of
                    Inl e \<Rightarrow> Inl e
                  | Inr (v, r3) \<Rightarrow>
                      (case skip_ws r3 of
                         [] \<Rightarrow> Inl JSONDecodeError
                       | d # r4 \<Rightarrow>
                           if d = CHR ''}'' then Inr (JObj (dict_of_pairs (acc @ [(key, v)])), r4)
                           else if d = CHR '','' then
                             (case skip_ws r4 of
                                [] \<Rightarrow> Inl JSONDecodeError
                              | q # r5 \<Rightarrow>
                                  if q = DQ then parse_object n depth py r5 (acc @ [(key, v)])
                                  else Inl JSONDecodeError)
                           else Inl JSONDecodeError))))"

text \<open>
  \<open>json.loads\<close> of a \<open>str\<close>, that is \<open>JSONDecoder.decode\<close>: leading whitespace,
  one value, trailing whitespace, and nothing else (\<open>Extra data\<close> otherwise).
\<close>

definition json_loads :: "interp \<Rightarrow> string \<Rightarrow> py_error + json" where
  "json_loads py s =
     (case scan_once (2 * length s + 1) (recursion_depth py) py (skip_ws s) of
        Inl e \<Rightarrow> Inl e
      | Inr (v, r) \<Rightarrow> if skip_ws r = [] then Inr v else Inl JSONDecodeError)"

text \<open>\<open>json.loads\<close> of a \<open>bytes\<close> object: decoded first, then read as above.\<close>

definition json_loads_bytes :: "interp \<Rightarrow> string \<Rightarrow> py_error + json" where
  "json_loads_bytes py b =
     (case bytes_decode py b of
        None \<Rightarrow> Inl UnicodeDecodeError
      | Some s \<Rightarrow> json_loads py s)"

section \<open>Values in the store and in Python\<close>

text \<open>
  SQLite types its values one by one, whatever the column declares, so a stored row
  may hold a value of any storage class in any column.  A float is \<open>Float m e\<close>
  for the number \<open>m * 2 ^ e\<close>, an infinity or not-a-number.  \<open>SqlBadText\<close> is
  text whose bytes are not valid UTF-8; a blob carries its bytes.
\<close>

datatype py_float = Float int int | PosInf | NegInf | NaN

datatype sql_value =
    SqlNull
  | SqlInteger int
  | SqlReal py_float
  | SqlText string
  | SqlBadText string
  | SqlBlob string

datatype py_value =
    PyNone
  | PyInt int
  | PyFloat py_float
  | PyStr string
  | PyBytes string

text \<open>
  What a cursor hands over for one stored value; text that does not decode makes the
  fetch raise.
\<close>

definition fetch_value :: "sql_value \<Rightarrow> py_value option" where
  "fetch_value v =
     (case v of
        SqlNull \<Rightarrow> Some PyNone
      | SqlInteger i \<Rightarrow> Some (PyInt i)
      | SqlReal f \<Rightarrow> Some (PyFloat f)
      | SqlText s \<Rightarrow> Some (PyStr s)
      | SqlBadText b \<Rightarrow> None
      | SqlBlob b \<Rightarrow> Some (PyBytes b))"

text \<open>Truth of a value, as \<open>and\<close>, \<open>or\<close> and \<open>bool\<close> take it.\<close>

definition truthy :: "py_value \<Rightarrow> bool" where
  "truthy v =
     (case v of
        PyNone \<Rightarrow> False
      | PyInt i \<Rightarrow> i \<noteq> 0
      | PyFloat f \<Rightarrow> (case f of Float m e \<Rightarrow> m \<noteq> 0 | _ \<Rightarrow> True)
      | PyStr s \<Rightarrow> s \<noteq> []
      | PyBytes b \<Rightarrow> b \<noteq> [])"

text \<open>\<open>a or b\<close>\<close>

definition py_or :: "py_value \<Rightarrow> py_value \<Rightarrow> py_value" where
  "py_or a b = (if truthy a then a else b)"

subsection \<open>\<open>int(x)\<close>\<close>

text \<open>
  Whitespace around an integer literal: the ASCII white space, and in a \<open>str\<close> also
  the two other space characters below 256.
\<close>

definition int_space :: "bool \<Rightarrow> char \<Rightarrow> bool" where
  "int_space is_str c =
     (let n = (of_char c :: nat) in
      (9 \<le> n \<and> n \<le> 13) \<or> n = 32 \<or> (is_str \<and> (n = 133 \<or> n = 160)))"

text \<open>Digits with single underscores between them; the digits read and the text left.\<close>

fun int_more :: "string \<Rightarrow> string \<Rightarrow> string \<times> string" where
  "int_more acc [] = (acc, [])"
| "int_more acc [c] = (if is_digit c then (acc @ [c], []) else (acc, [c]))"
| "int_more acc (c # d # cs) =
     (if is_digit c then int_more (acc @ [c]) (d # cs)
      else if c = CHR ''_'' \<and> is_digit d then int_more (acc @ [d]) cs
      else (acc, c # d # cs))"

definition py_int_of_text :: "interp \<Rightarrow> bool \<Rightarrow> string \<Rightarrow> py_error + int" where
  "py_int_of_text py is_str s =
     (let s1 = dropWhile (int_space is_str) s;
          neg = (s1 \<noteq> [] \<and> hd s1 = CHR ''-'');
          s2 = (if s1 \<noteq> [] \<and> (hd s1 = CHR ''+'' \<or> hd s1 = CHR ''-'') then tl s1 else s1)
      in if s2 = [] \<or> \<not> is_digit (hd s2) then Inl ValueError
         else
           (case int_more [] s2 of (ds, rest) \<Rightarrow>
              if too_many_digits py (length ds) then Inl ValueError
              else if dropWhile (int_space is_str) rest \<noteq> [] then Inl ValueError
              else Inr (if neg then - int (nat_of_digits ds) else int (nat_of_digits ds))))"

text \<open>Truncation towards zero; no integer for an infinity or not-a-number.\<close>

definition py_int_of_float :: "py_float \<Rightarrow> py_error + int" where
  "py_int_of_float f =
     (case f of
        Float m e \<Rightarrow>
          Inr (if 0 \<le> e then m * 2 ^ nat e
               else if 0 \<le> m then m div 2 ^ nat (- e)
               else - ((- m) div 2 ^ nat (- e)))
      | PosInf \<Rightarrow> Inl OverflowError
      | NegInf \<Rightarrow> Inl OverflowError
      | NaN \<Rightarrow> Inl ValueError)"

definition py_int :: "interp \<Rightarrow> py_value \<Rightarrow> py_error + int" where
  "py_int py v =
     (case v of
        PyNone \<Rightarrow> Inl TypeError
      | PyInt i \<Rightarrow> Inr i
      | PyFloat f \<Rightarrow> py_int_of_float f
      | PyStr s \<Rightarrow> py_int_of_text py True s
      | PyBytes b \<Rightarrow> py_int_of_text py False b)"

section \<open>The live player, as the game hands it over\<close>

text \<open>
  Attributes have the types the game API gives them.  \<open>item_meta\<close> is \<open>None\<close> where
  the item has no metadata (the branch in which the defaults of \<open>save_inventory\<close>
  stay), \<open>data\<close> is \<open>None\<close> where the attribute is absent or null.  \<open>item_type\<close>
  is \<open>str(item.type)\<close>.  A container is the list of its slots: \<open>size\<close> is its
  length and \<open>get_item(i)\<close> its \<open>i\<close>-th entry, \<open>None\<close> for an empty slot.
\<close>

record ItemMeta =
  display_name :: string
  enchants :: "(string \<times> int) list"
  lore :: "string list"
  is_unbreakable :: bool
  damage :: int

record ItemStack =
  item_type :: string
  amount :: int
  item_meta :: "ItemMeta option"
  data :: "int option"

record PlayerInventory =
  contents :: "ItemStack option list"
  helmet :: "ItemStack option"
  chestplate :: "ItemStack option"
  leggings :: "ItemStack option"
  boots :: "ItemStack option"
  item_in_off_hand :: "ItemStack option"

record Player =
  player_xuid :: string
  player_name :: string
  inventory :: PlayerInventory
  ender_chest :: "ItemStack option list"

section \<open>The stored tables\<close>

text \<open>
  A table is the list of its rows in rowid order (the \<open>id\<close> column of the two item
  tables is written by SQLite alone and never read).  A row of an item table is
  given by its columns in the order of the \<open>SELECT\<close>; with \<open>sql_value\<close> columns it is
  a stored row, with \<open>py_value\<close> columns the tuple fetched for it.
\<close>

record User =
  xuid :: string
  name :: string
  last_join :: int
  last_leave :: int

record 'v inventory_row =
  r_xuid :: 'v
  r_name :: 'v
  r_slot_type :: 'v
  r_slot :: 'v
  r_type :: 'v
  r_amount :: 'v
  r_damage :: 'v
  r_display_name :: 'v
  r_enchants :: 'v
  r_lore :: 'v
  r_unbreakable :: 'v
  r_data :: 'v

record 'v ender_chest_row =
  e_xuid :: 'v
  e_name :: 'v
  e_slot :: 'v
  e_type :: 'v
  e_amount :: 'v
  e_damage :: 'v
  e_display_name :: 'v
  e_enchants :: 'v
  e_lore :: 'v
  e_unbreakable :: 'v
  e_data :: 'v

record database =
  users :: "User list"
  inventories :: "sql_value inventory_row list"
  ender_chests :: "sql_value ender_chest_row list"

text \<open>The dicts that \<open>get_inventory\<close> and \<open>get_enderchest\<close> return, key by key.\<close>

record inventory_dict =
  d_xuid :: py_value
  d_name :: py_value
  d_slot_type :: py_value
  d_slot :: int
  d_type :: py_value
  d_amount :: int
  d_damage :: int
  d_display_name :: py_value
  d_enchants :: json
  d_lore :: json
  d_unbreakable :: bool
  d_data :: "int option"

record ender_chest_dict =
  c_xuid :: py_value
  c_name :: py_value
  c_slot :: int
  c_type :: py_value
  c_amount :: int
  c_damage :: int
  c_display_name :: py_value
  c_enchants :: json
  c_lore :: json
  c_unbreakable :: bool
  c_data :: "int option"

section \<open>The user directory\<close>

text \<open>
  \<open>INSERT OR REPLACE INTO users (xuid, name, last_join)\<close>: the row with this primary
  key, if any, is deleted and a new row is appended; \<open>last_leave\<close>, not listed, takes
  its column default 0.
\<close>

definition save_user :: "Player \<Rightarrow> int \<Rightarrow> database \<Rightarrow> database" where
  "save_user player join_time db =
     db\<lparr>users :=
          filter (\<lambda>u. xuid u \<noteq> player_xuid player) (users db) @
          [\<lparr>xuid = player_xuid player, name = player_name player,
            last_join = join_time, last_leave = 0\<rparr>]\<rparr>"

text \<open>\<open>UPDATE users SET last_leave = ? WHERE xuid = ?\<close>\<close>

definition update_user_leave_time :: "string \<Rightarrow> int \<Rightarrow> database \<Rightarrow> database" where
  "update_user_leave_time x leave_time db =
     db\<lparr>users := map (\<lambda>u. if xuid u = x then u\<lparr>last_leave := leave_time\<rparr> else u) (users db)\<rparr>"

text \<open>SQLite's \<open>LOWER\<close> folds the ASCII letters only.\<close>

definition lower_char :: "char \<Rightarrow> char" where
  "lower_char c =
     (if (65::nat) \<le> of_char c \<and> of_char c \<le> (90::nat) then char_of (of_char c + (32::nat)) else c)"

definition LOWER :: "string \<Rightarrow> string" where
  "LOWER s = map lower_char s"

text \<open>
  SQLite's \<open>LIKE\<close>, pattern first: \<open>%\<close> stands for any run of characters, \<open>_\<close> for
  any one character, and letters compare without regard to ASCII case.  The queries
  give no \<open>ESCAPE\<close> character.
\<close>

fun like :: "string \<Rightarrow> string \<Rightarrow> bool" where
  "like [] [] = True"
| "like [] (c # cs) = False"
| "like (p # ps) [] = (p = CHR ''%'' \<and> like ps [])"
| "like (p # ps) (c # cs) =
     (if p = CHR ''%'' then like ps (c # cs) \<or> like (p # ps) cs
      else (p = CHR ''_'' \<or> lower_char p = lower_char c) \<and> like ps cs)"

text \<open>
  \<open>LIKE\<close> reads both of its operands as C strings: each ends at its first NUL
  character, if it has one.
\<close>

definition c_string :: "string \<Rightarrow> string" where
  "c_string s = takeWhile (\<lambda>c. c \<noteq> CHR 0x00) s"

text \<open>\<open>WHERE LOWER(name) LIKE LOWER(?)\<close> with the parameter \<open>f"%{name}%"\<close>\<close>

definition name_matches :: "string \<Rightarrow> User \<Rightarrow> bool" where
  "name_matches pat u =
     like (c_string (LOWER (''%'' @ pat @ ''%''))) (c_string (LOWER (name u)))"

text \<open>
  \<open>ORDER BY last_join DESC\<close>; rows with equal \<open>last_join\<close> stay in table order
  (SQL leaves their order open).
\<close>

definition search_users_by_name :: "string \<Rightarrow> database \<Rightarrow> User list" where
  "search_users_by_name pat db =
     sort_key (\<lambda>u. - last_join u) (filter (name_matches pat) (users db))"

definition get_user_by_name :: "string \<Rightarrow> database \<Rightarrow> User option" where
  "get_user_by_name pat db =
     (case sort_key (\<lambda>u. - last_join u) (filter (name_matches pat) (users db)) of
        [] \<Rightarrow> None
      | row # _ \<Rightarrow> Some row)"

section \<open>Saving a snapshot\<close>

abbreviation AIR :: string where "AIR \<equiv> ''minecraft:air''"

text \<open>\<open>not item or str(item.type) == "minecraft:air"\<close>: the slot is passed over.\<close>

definition skipped :: "ItemStack option \<Rightarrow> bool" where
  "skipped it = (case it of None \<Rightarrow> True | Some item \<Rightarrow> item_type item = AIR)"

definition meta_display_name :: "ItemStack \<Rightarrow> string" where
  "meta_display_name item = (case item_meta item of None \<Rightarrow> [] | Some m \<Rightarrow> display_name m)"

definition meta_enchants :: "ItemStack \<Rightarrow> (string \<times> int) list" where
  "meta_enchants item = (case item_meta item of None \<Rightarrow> [] | Some m \<Rightarrow> enchants m)"

definition meta_lore :: "ItemStack \<Rightarrow> string list" where
  "meta_lore item = (case item_meta item of None \<Rightarrow> [] | Some m \<Rightarrow> lore m)"

definition meta_unbreakable :: "ItemStack \<Rightarrow> bool" where
  "meta_unbreakable item = (case item_meta item of None \<Rightarrow> False | Some m \<Rightarrow> is_unbreakable m)"

definition meta_damage :: "ItemStack \<Rightarrow> int" where
  "meta_damage item = (case item_meta item of None \<Rightarrow> 0 | Some m \<Rightarrow> damage m)"

text \<open>
  The tuple appended to \<open>values\<close> for one item of the inventory, as the insert stores
  it: a \<open>str\<close> as TEXT, an \<open>int\<close> as INTEGER, \<open>None\<close> as NULL.
\<close>

definition inventory_tuple :: "Player \<Rightarrow> string \<Rightarrow> int \<Rightarrow> ItemStack \<Rightarrow> sql_value inventory_row" where
  "inventory_tuple player slot_type i item =
     \<lparr>r_xuid = SqlText (player_xuid player),
      r_name = SqlText (player_name player),
      r_slot_type = SqlText slot_type,
      r_slot = SqlInteger i,
      r_type = SqlText (item_type item),
      r_amount = SqlInteger (amount item),
      r_damage = SqlInteger (meta_damage item),
      r_display_name = SqlText (meta_display_name item),
      r_enchants = SqlText (json_dumps_dict (meta_enchants item)),
      r_lore = SqlText (json_dumps_list (meta_lore item)),
      r_unbreakable = SqlInteger (if meta_unbreakable item then 1 else 0),
      r_data = (case data item of None \<Rightarrow> SqlNull | Some d \<Rightarrow> SqlInteger d)\<rparr>"

definition slot_values :: "Player \<Rightarrow> sql_value inventory_row list" where
  "slot_values player =
     concat (map (\<lambda>(i, it).
                    case it of
                      None \<Rightarrow> []
                    | Some item \<Rightarrow>
                        if item_type item = AIR then []
                        else [inventory_tuple player ''slot'' (int i) item])
                 (enumerate 0 (contents (inventory player))))"

definition armor_items :: "Player \<Rightarrow> (string \<times> ItemStack option) list" where
  "armor_items player =
     [(''helmet'', helmet (inventory player)),
      (''chestplate'', chestplate (inventory player)),
      (''leggings'', leggings (inventory player)),
      (''boots'', boots (inventory player)),
      (''offhand'', item_in_off_hand (inventory player))]"

definition armor_values :: "Player \<Rightarrow> sql_value inventory_row list" where
  "armor_values player =
     concat (map (\<lambda>(slot_type, it).
                    case it of
                      None \<Rightarrow> []
                    | Some item \<Rightarrow>
                        if item_type item = AIR then []
                        else [inventory_tuple player slot_type 0 item])
                 (armor_items player))"

definition inventory_values :: "Player \<Rightarrow> sql_value inventory_row list" where
  "inventory_values player = slot_values player @ armor_values player"

text \<open>
  \<open>DELETE FROM inventories WHERE xuid = ?\<close>, then the bulk insert, then the commit.
  The comparison holds for a stored TEXT equal to the parameter and for no value of
  another storage class.
\<close>

definition save_inventory :: "Player \<Rightarrow> database \<Rightarrow> database" where
  "save_inventory player db =
     db\<lparr>inventories :=
          filter (\<lambda>r. r_xuid r \<noteq> SqlText (player_xuid player)) (inventories db)
          @ inventory_values player\<rparr>"

definition ender_chest_tuple :: "Player \<Rightarrow> int \<Rightarrow> ItemStack \<Rightarrow> sql_value ender_chest_row" where
  "ender_chest_tuple player i item =
     \<lparr>e_xuid = SqlText (player_xuid player),
      e_name = SqlText (player_name player),
      e_slot = SqlInteger i,
      e_type = SqlText (item_type item),
      e_amount = SqlInteger (amount item),
      e_damage = SqlInteger (meta_damage item),
      e_display_name = SqlText (meta_display_name item),
      e_enchants = SqlText (json_dumps_dict (meta_enchants item)),
      e_lore = SqlText (json_dumps_list (meta_lore item)),
      e_unbreakable = SqlInteger (if meta_unbreakable item then 1 else 0),
      e_data = (case data item of None \<Rightarrow> SqlNull | Some d \<Rightarrow> SqlInteger d)\<rparr>"

definition ender_chest_values :: "Player \<Rightarrow> sql_value ender_chest_row list" where
  "ender_chest_values player =
     concat (map (\<lambda>(i, it).
                    case it of
                      None \<Rightarrow> []
                    | Some item \<Rightarrow>
                        if item_type item = AIR then []
                        else [ender_chest_tuple player (int i) item])
                 (enumerate 0 (ender_chest player)))"

definition save_enderchest :: "Player \<Rightarrow> database \<Rightarrow> database" where
  "save_enderchest player db =
     db\<lparr>ender_chests :=
          filter (\<lambda>r. e_xuid r \<noteq> SqlText (player_xuid player)) (ender_chests db)
          @ ender_chest_values player\<rparr>"

section \<open>Reading a snapshot back\<close>

text \<open>
  \<open>fetchall\<close>: every selected row is turned into a tuple of Python values before
  the loop starts, outside any \<open>try\<close>; one value that cannot be fetched makes the
  call raise \<open>OperationalError\<close>.
\<close>

definition fetch_inventory_row :: "sql_value inventory_row \<Rightarrow> py_value inventory_row option" where
  "fetch_inventory_row r =
     (case those (map fetch_value
              [r_xuid r, r_name r, r_slot_type r, r_slot r, r_type r, r_amount r, r_damage r,
               r_display_name r, r_enchants r, r_lore r, r_unbreakable r, r_data r]) of
        Some [a0, a1, a2, a3, a4, a5, a6, a7, a8, a9, a10, a11] \<Rightarrow>
          Some \<lparr>r_xuid = a0, r_name = a1, r_slot_type = a2, r_slot = a3, r_type = a4,
                r_amount = a5, r_damage = a6, r_display_name = a7, r_enchants = a8,
                r_lore = a9, r_unbreakable = a10, r_data = a11\<rparr>
      | _ \<Rightarrow> None)"

definition fetch_ender_chest_row :: "sql_value ender_chest_row \<Rightarrow> py_value ender_chest_row option" where
  "fetch_ender_chest_row r =
     (case those (map fetch_value
              [e_xuid r, e_name r, e_slot r, e_type r, e_amount r, e_damage r,
               e_display_name r, e_enchants r, e_lore r, e_unbreakable r, e_data r]) of
        Some [a0, a1, a2, a3, a4, a5, a6, a7, a8, a9, a10] \<Rightarrow>
          Some \<lparr>e_xuid = a0, e_name = a1, e_slot = a2, e_type = a3, e_amount = a4,
                e_damage = a5, e_display_name = a6, e_enchants = a7, e_lore = a8,
                e_unbreakable = a9, e_data = a10\<rparr>
      | _ \<Rightarrow> None)"

definition fetchall :: "('a \<Rightarrow> 'b option) \<Rightarrow> 'a list \<Rightarrow> py_error + 'b list" where
  "fetchall fetch rows =
     (case those (map fetch rows) of None \<Rightarrow> Inl OperationalError | Some fetched \<Rightarrow> Inr fetched)"

text \<open>
  One JSON column of one row: the default stays unless the value is true and none of
  \<open>"null"\<close>, \<open>"0"\<close>, \<open>""\<close>; then \<open>json.loads\<close> is called on it, and the bare
  \<open>except\<close> puts the default back on any failure, as on the \<open>TypeError\<close> for a
  number.  The parsers are arguments, so that what does not depend on them can be
  said.
\<close>

definition load_field ::
  "(string \<Rightarrow> py_error + json) \<Rightarrow> (string \<Rightarrow> py_error + json) \<Rightarrow> json \<Rightarrow> py_value \<Rightarrow> json" where
  "load_field loads loads_bytes dflt col =
     (if truthy col \<and> col \<notin> set [PyStr ''null'', PyStr ''0'', PyStr []] then
        (case col of
           PyStr s \<Rightarrow> (case loads s of Inr v \<Rightarrow> v | Inl e \<Rightarrow> dflt)
         | PyBytes b \<Rightarrow> (case loads_bytes b of Inr v \<Rightarrow> v | Inl e \<Rightarrow> dflt)
         | _ \<Rightarrow> dflt)
      else dflt)"

text \<open>\<open>int(v) if v is not None else d\<close>\<close>

definition int_unless_none :: "interp \<Rightarrow> py_value \<Rightarrow> int \<Rightarrow> py_error + int" where
  "int_unless_none py v d = (if v = PyNone then Inr d else py_int py v)"

text \<open>
  The body of the loop for one fetched row: the dict appended to \<open>items\<close>, or the
  exception that the outer \<open>except\<close> catches, after which the row is passed over.
\<close>

definition decode_inventory_row :: "interp \<Rightarrow> py_value inventory_row \<Rightarrow> py_error + inventory_dict" where
  "decode_inventory_row py row =
     (case int_unless_none py (r_slot row) 0 of Inl e \<Rightarrow> Inl e | Inr slot_no \<Rightarrow>
       (case int_unless_none py (r_amount row) 1 of Inl e \<Rightarrow> Inl e | Inr amt \<Rightarrow>
         (case int_unless_none py (r_damage row) 0 of Inl e \<Rightarrow> Inl e | Inr dmg \<Rightarrow>
           (case (if r_data row = PyNone then Inr None
                  else map_sum id Some (py_int py (r_data row))) of
              Inl e \<Rightarrow> Inl e
            | Inr dat \<Rightarrow>
                Inr \<lparr>d_xuid = r_xuid row,
                     d_name = r_name row,
                     d_slot_type = r_slot_type row,
                     d_slot = slot_no,
                     d_type = py_or (r_type row) (PyStr AIR),
                     d_amount = amt,
                     d_damage = dmg,
                     d_display_name = py_or (r_display_name row) (PyStr []),
                     d_enchants = load_field (json_loads py) (json_loads_bytes py) (JObj [])
                                    (r_enchants row),
                     d_lore = load_field (json_loads py) (json_loads_bytes py) (JArr [])
                                (r_lore row),
                     d_unbreakable = (r_unbreakable row \<noteq> PyNone \<and> truthy (r_unbreakable row)),
                     d_data = dat\<rparr>))))"

text \<open>The dicts of the rows that went through, in order.\<close>

definition appended :: "(py_error + 'a) list \<Rightarrow> 'a list" where
  "appended results = concat (map (\<lambda>r. case r of Inl e \<Rightarrow> [] | Inr d \<Rightarrow> [d]) results)"

text \<open>The exceptions printed by the loop, one for each row passed over.\<close>

definition printed :: "(py_error + 'a) list \<Rightarrow> py_error list" where
  "printed results = concat (map (\<lambda>r. case r of Inl e \<Rightarrow> [e] | Inr d \<Rightarrow> []) results)"

definition get_inventory :: "interp \<Rightarrow> string \<Rightarrow> database \<Rightarrow> py_error + inventory_dict list" where
  "get_inventory py x db =
     (case fetchall fetch_inventory_row (filter (\<lambda>r. r_xuid r = SqlText x) (inventories db)) of
        Inl e \<Rightarrow> Inl e
      | Inr rows \<Rightarrow> Inr (appended (map (decode_inventory_row py) rows)))"

definition get_inventory_printed :: "interp \<Rightarrow> string \<Rightarrow> database \<Rightarrow> py_error list" where
  "get_inventory_printed py x db =
     (case fetchall fetch_inventory_row (filter (\<lambda>r. r_xuid r = SqlText x) (inventories db)) of
        Inl e \<Rightarrow> []
      | Inr rows \<Rightarrow> printed (map (decode_inventory_row py) rows))"

definition decode_ender_chest_row :: "interp \<Rightarrow> py_value ender_chest_row \<Rightarrow> py_error + ender_chest_dict" where
  "decode_ender_chest_row py row =
     (case int_unless_none py (e_slot row) 0 of Inl e \<Rightarrow> Inl e | Inr slot_no \<Rightarrow>
       (case int_unless_none py (e_amount row) 1 of Inl e \<Rightarrow> Inl e | Inr amt \<Rightarrow>
         (case int_unless_none py (e_damage row) 0 of Inl e \<Rightarrow> Inl e | Inr dmg \<Rightarrow>
           (case (if e_data row = PyNone then Inr None
                  else map_sum id Some (py_int py (e_data row))) of
              Inl e \<Rightarrow> Inl e
            | Inr dat \<Rightarrow>
                Inr \<lparr>c_xuid = e_xuid row,
                     c_name = e_name row,
                     c_slot = slot_no,
                     c_type = py_or (e_type row) (PyStr AIR),
                     c_amount = amt,
                     c_damage = dmg,
                     c_display_name = py_or (e_display_name row) (PyStr []),
                     c_enchants = load_field (json_loads py) (json_loads_bytes py) (JObj [])
                                    (e_enchants row),
                     c_lore = load_field (json_loads py) (json_loads_bytes py) (JArr [])
                                (e_lore row),
                     c_unbreakable = (e_unbreakable row \<noteq> PyNone \<and> truthy (e_unbreakable row)),
                     c_data = dat\<rparr>))))"

definition get_enderchest :: "interp \<Rightarrow> string \<Rightarrow> database \<Rightarrow> py_error + ender_chest_dict list" where
  "get_enderchest py x db =
     (case fetchall fetch_ender_chest_row (filter (\<lambda>r. e_xuid r = SqlText x) (ender_chests db)) of
        Inl e \<Rightarrow> Inl e
      | Inr rows \<Rightarrow> Inr (appended (map (decode_ender_chest_row py) rows)))"

definition get_enderchest_printed :: "interp \<Rightarrow> string \<Rightarrow> database \<Rightarrow> py_error list" where
  "get_enderchest_printed py x db =
     (case fetchall fetch_ender_chest_row (filter (\<lambda>r. e_xuid r = SqlText x) (ender_chests db)) of
        Inl e \<Rightarrow> []
      | Inr rows \<Rightarrow> printed (map (decode_ender_chest_row py) rows))"

section \<open>What the specification expects of a read\<close>

text \<open>
  The decoding of a stored row in the specification's words: every key takes
  the value of its column; a NULL slot, amount, damage or unbreakable flag gives 0, 1, 0
  and False, a missing type gives air, a missing display name the empty string; the
  enchants and lore texts are parsed, and the empty mapping (the empty sequence)
  stands in where the text is missing, is one of \<open>null\<close>, \<open>0\<close> and the empty text,
  or does not parse.  It is written for rows whose columns hold NULL or a value of
  the declared type.
\<close>

definition text_or_null :: "sql_value \<Rightarrow> bool" where
  "text_or_null v = (case v of SqlNull \<Rightarrow> True | SqlText s \<Rightarrow> True | _ \<Rightarrow> False)"

definition integer_or_null :: "sql_value \<Rightarrow> bool" where
  "integer_or_null v = (case v of SqlNull \<Rightarrow> True | SqlInteger i \<Rightarrow> True | _ \<Rightarrow> False)"

definition declared_types :: "sql_value inventory_row \<Rightarrow> bool" where
  "declared_types r =
     (list_all text_or_null
        [r_xuid r, r_name r, r_slot_type r, r_type r, r_display_name r, r_enchants r, r_lore r]
      \<and> list_all integer_or_null
        [r_slot r, r_amount r, r_damage r, r_unbreakable r, r_data r])"

definition expected_text :: "sql_value \<Rightarrow> py_value" where
  "expected_text v = (case v of SqlText s \<Rightarrow> PyStr s | _ \<Rightarrow> PyNone)"

definition expected_text_or :: "string \<Rightarrow> sql_value \<Rightarrow> py_value" where
  "expected_text_or d v = (case v of SqlText s \<Rightarrow> if s = [] then PyStr d else PyStr s | _ \<Rightarrow> PyStr d)"

definition expected_int :: "int \<Rightarrow> sql_value \<Rightarrow> int" where
  "expected_int d v = (case v of SqlInteger i \<Rightarrow> i | _ \<Rightarrow> d)"

definition expected_json :: "interp \<Rightarrow> json \<Rightarrow> sql_value \<Rightarrow> json" where
  "expected_json py dflt v =
     (case v of
        SqlText s \<Rightarrow>
          if s = [] \<or> s = ''null'' \<or> s = ''0'' then dflt
          else (case json_loads py s of Inr j \<Rightarrow> j | Inl e \<Rightarrow> dflt)
      | _ \<Rightarrow> dflt)"

definition expected_dict :: "interp \<Rightarrow> sql_value inventory_row \<Rightarrow> inventory_dict" where
  "expected_dict py r =
     \<lparr>d_xuid = expected_text (r_xuid r),
      d_name = expected_text (r_name r),
      d_slot_type = expected_text (r_slot_type r),
      d_slot = expected_int 0 (r_slot r),
      d_type = expected_text_or AIR (r_type r),
      d_amount = expected_int 1 (r_amount r),
      d_damage = expected_int 0 (r_damage r),
      d_display_name = expected_text_or [] (r_display_name r),
      d_enchants = expected_json py (JObj []) (r_enchants r),
      d_lore = expected_json py (JArr []) (r_lore r),
      d_unbreakable = (expected_int 0 (r_unbreakable r) \<noteq> 0),
      d_data = (case r_data r of SqlInteger i \<Rightarrow> Some i | _ \<Rightarrow> None)\<rparr>"

section \<open>What the specification expects of a round trip\<close>







section \<open>A sample interpreter, player and database\<close>

definition ex_py :: interp where
  "ex_py =
     \<lparr>int_max_str_digits = 4300, recursion_depth = 1000,
      bytes_decode = (\<lambda>b. if list_all (\<lambda>c. (of_char c :: nat) < 128 \<and> c \<noteq> CHR 0x00) b then Some b else None)\<rparr>"

definition ex_sword :: ItemStack where
  "ex_sword = \<lparr>item_type = ''minecraft:iron_sword'', amount = 1, item_meta = None, data = Some 0\<rparr>"

definition ex_helmet :: ItemStack where
  "ex_helmet =
     \<lparr>item_type = ''minecraft:diamond_helmet'', amount = 1,
      item_meta = Some \<lparr>display_name = ''Crown'', enchants = [(''protection'', 4), (''thorns'', 1)],
                        lore = [''old'', ''gold''], is_unbreakable = True, damage = 3\<rparr>,
      data = None\<rparr>"

definition ex_air :: ItemStack where
  "ex_air = \<lparr>item_type = AIR, amount = 0, item_meta = None, data = None\<rparr>"

definition ex_player :: Player where
  "ex_player =
     \<lparr>player_xuid = ''2535'', player_name = ''Steve'',
      inventory = \<lparr>contents = [Some ex_sword, None, Some ex_air], helmet = Some ex_helmet,
                   chestplate = None, leggings = Some ex_air, boots = None,
                   item_in_off_hand = None\<rparr>,
      ender_chest = [None, Some ex_sword]\<rparr>"

definition ex_empty_player :: Player where
  "ex_empty_player =
     \<lparr>player_xuid = ''2535'', player_name = ''Steve'',
      inventory = \<lparr>contents = [None, Some ex_air, None], helmet = None,
                   chestplate = Some ex_air, leggings = None, boots = None,
                   item_in_off_hand = None\<rparr>,
      ender_chest = [Some ex_air, None]\<rparr>"

definition ex_helmet_player :: Player where
  "ex_helmet_player =
     \<lparr>player_xuid = ''2535'', player_name = ''Steve'',
      inventory = \<lparr>contents = [None, Some ex_air, None], helmet = Some ex_helmet,
                   chestplate = Some ex_air, leggings = None, boots = None,
                   item_in_off_hand = None\<rparr>,
      ender_chest = []\<rparr>"

definition ex_old_row :: "sql_value inventory_row" where
  "ex_old_row =
     \<lparr>r_xuid = SqlText ''2535'', r_name = SqlText ''Steve'', r_slot_type = SqlText ''slot'',
      r_slot = SqlInteger 4, r_type = SqlText ''minecraft:dirt'', r_amount = SqlInteger 64,
      r_damage = SqlInteger 0, r_display_name = SqlText [], r_enchants = SqlText ''{}'',
      r_lore = SqlText ''[]'', r_unbreakable = SqlInteger 0, r_data = SqlNull\<rparr>"

definition ex_other_row :: "sql_value inventory_row" where
  "ex_other_row =
     \<lparr>r_xuid = SqlText ''77'', r_name = SqlText ''steve_alt'', r_slot_type = SqlText ''boots'',
      r_slot = SqlInteger 0, r_type = SqlText ''minecraft:iron_boots'', r_amount = SqlInteger 1,
      r_damage = SqlNull, r_display_name = SqlNull, r_enchants = SqlText ''{bad'',
      r_lore = SqlText ''null'', r_unbreakable = SqlNull, r_data = SqlInteger 2\<rparr>"

definition ex_chest_row :: "sql_value ender_chest_row" where
  "ex_chest_row =
     \<lparr>e_xuid = SqlText ''2535'', e_name = SqlText ''Steve'', e_slot = SqlInteger 7,
      e_type = SqlText ''minecraft:stone'', e_amount = SqlInteger 3, e_damage = SqlInteger 0,
      e_display_name = SqlText [], e_enchants = SqlText ''0'', e_lore = SqlNull,
      e_unbreakable = SqlInteger 0, e_data = SqlNull\<rparr>"

definition ex_db :: database where
  "ex_db =
     \<lparr>users = [\<lparr>xuid = ''2535'', name = ''Steve'', last_join = 100, last_leave = 150\<rparr>,
               \<lparr>xuid = ''77'', name = ''steve_alt'', last_join = 200, last_leave = 0\<rparr>,
               \<lparr>xuid = ''9'', name = ''Bob'', last_join = 300, last_leave = 0\<rparr>],
      inventories = [ex_old_row, ex_other_row, ex_old_row\<lparr>r_slot := SqlInteger 5\<rparr>],
      ender_chests = [ex_chest_row]\<rparr>"

definition ex_abc_db :: database where
  "ex_abc_db =
     \<lparr>users = [\<lparr>xuid = ''1'', name = ''abc'', last_join = 5, last_leave = 0\<rparr>],
      inventories = [], ender_chests = []\<rparr>"

lemmas ex_defs = ex_sword_def ex_helmet_def ex_air_def ex_player_def ex_empty_player_def
  ex_helmet_player_def ex_old_row_def ex_other_row_def ex_chest_row_def ex_db_def

section \<open>Rows that reach the caller\<close>

text \<open>
  A stored row goes through where its values can be fetched and the body of the loop
  raises nothing for it; the dicts returned stand for these rows, in order.
\<close>

definition goes_through :: "interp \<Rightarrow> sql_value inventory_row \<Rightarrow> bool" where
  "goes_through py r =
     (case fetch_inventory_row r of
        None \<Rightarrow> False
      | Some row \<Rightarrow> (case decode_inventory_row py row of Inl e \<Rightarrow> False | Inr d \<Rightarrow> True))"

definition goes_through_chest :: "interp \<Rightarrow> sql_value ender_chest_row \<Rightarrow> bool" where
  "goes_through_chest py r =
     (case fetch_ender_chest_row r of
        None \<Rightarrow> False
      | Some row \<Rightarrow> (case decode_ender_chest_row py row of Inl e \<Rightarrow> False | Inr d \<Rightarrow> True))"

definition declared_types_chest :: "sql_value ender_chest_row \<Rightarrow> bool" where
  "declared_types_chest r =
     (list_all text_or_null
        [e_xuid r, e_name r, e_type r, e_display_name r, e_enchants r, e_lore r]
      \<and> list_all integer_or_null
        [e_slot r, e_amount r, e_damage r, e_unbreakable r, e_data r])"

text \<open>Three rows of one identifier; the enchants text of the second does not parse.\<close>

definition ex_good_row :: "sql_value inventory_row" where
  "ex_good_row =
     \<lparr>r_xuid = SqlText ''77'', r_name = SqlText ''steve_alt'', r_slot_type = SqlText ''slot'',
      r_slot = SqlInteger 3, r_type = SqlText ''minecraft:bow'', r_amount = SqlInteger 1,
      r_damage = SqlInteger 12, r_display_name = SqlText ''Longbow'',
      r_enchants = SqlText (json_dumps_dict [(''power'', 5)]),
      r_lore = SqlText (json_dumps_list [''yew'']),
      r_unbreakable = SqlInteger 1, r_data = SqlNull\<rparr>"



text \<open>
  Two stored states outside the declared types: an enchants text that is not UTF-8,
  and a text in the slot column.
\<close>

definition ex_undecodable_db :: database where
  "ex_undecodable_db =
     \<lparr>users = [],
      inventories = [ex_good_row, ex_good_row\<lparr>r_enchants := SqlBadText [CHR 0xFF]\<rparr>],
      ender_chests = []\<rparr>"

definition ex_text_slot_db :: database where
  "ex_text_slot_db =
     \<lparr>users = [],
      inventories = [ex_good_row\<lparr>r_slot := SqlText ''abc''\<rparr>, ex_good_row],
      ender_chests = []\<rparr>"


section \<open>Notions for the round trip through JSON\<close>





section \<open>Replace-all on save\<close>

lemma filter_neq_append_eq:
  "(\<And>v. v \<in> set vs \<Longrightarrow> f v = x) \<Longrightarrow> filter (\<lambda>r. f r = x) (filter (\<lambda>r. f r \<noteq> x) rs @ vs) = vs"
  by (induction rs) (auto simp: filter_id_conv)

lemma filter_neq_append_neq:
  "(\<And>v. v \<in> set vs \<Longrightarrow> f v = x) \<Longrightarrow> filter (\<lambda>r. f r \<noteq> x) (filter (\<lambda>r. f r \<noteq> x) rs @ vs) = filter (\<lambda>r. f r \<noteq> x) rs"
  by (induction rs) (auto simp: filter_empty_conv)

lemma inventory_values_xuid: "r \<in> set (inventory_values p) \<Longrightarrow> r_xuid r = SqlText (player_xuid p)"
  by (auto simp: inventory_values_def slot_values_def armor_values_def inventory_tuple_def
      split: option.splits if_splits)

lemma ender_chest_values_xuid: "r \<in> set (ender_chest_values p) \<Longrightarrow> e_xuid r = SqlText (player_xuid p)"
  by (auto simp: ender_chest_values_def ender_chest_tuple_def split: option.splits if_splits)

lemma inventory_values_type: "r \<in> set (inventory_values p) \<Longrightarrow> r_type r \<noteq> SqlText AIR"
  by (auto simp: inventory_values_def slot_values_def armor_values_def inventory_tuple_def
      split: option.splits if_splits)

lemma ender_chest_values_type: "r \<in> set (ender_chest_values p) \<Longrightarrow> e_type r \<noteq> SqlText AIR"
  by (auto simp: ender_chest_values_def ender_chest_tuple_def split: option.splits if_splits)

lemma stored_inventory:
  "filter (\<lambda>r. r_xuid r = SqlText (player_xuid p)) (inventories (save_inventory p db)) = inventory_values p"
  by (simp add: save_inventory_def filter_neq_append_eq inventory_values_xuid)

lemma stored_ender_chest:
  "filter (\<lambda>r. e_xuid r = SqlText (player_xuid p)) (ender_chests (save_enderchest p db)) = ender_chest_values p"
  by (simp add: save_enderchest_def filter_neq_append_eq ender_chest_values_xuid)

lemma others_inventory:
  "filter (\<lambda>r. r_xuid r \<noteq> SqlText (player_xuid p)) (inventories (save_inventory p db))
     = filter (\<lambda>r. r_xuid r \<noteq> SqlText (player_xuid p)) (inventories db)"
  by (simp add: save_inventory_def filter_neq_append_neq inventory_values_xuid)

lemma others_ender_chest:
  "filter (\<lambda>r. e_xuid r \<noteq> SqlText (player_xuid p)) (ender_chests (save_enderchest p db))
     = filter (\<lambda>r. e_xuid r \<noteq> SqlText (player_xuid p)) (ender_chests db)"
  by (simp add: save_enderchest_def filter_neq_append_neq ender_chest_values_xuid)

lemma length_concat_opt:
  "length (concat (map (\<lambda>(i, it). case it of None \<Rightarrow> [] | Some item \<Rightarrow> if item_type item = AIR then [] else [f i item]) xs))
   = length (filter (\<lambda>(i, it). \<not> skipped it) xs)"
  by (induction xs) (auto simp: skipped_def split: option.splits)

lemma length_filter_enumerate: "length (filter (\<lambda>(i, it). P it) (enumerate n xs)) = length (filter P xs)"
  by (induction xs arbitrary: n) auto

lemma length_inventory_values:
  "length (inventory_values p) = length (filter (\<lambda>it. \<not> skipped it) (contents (inventory p) @ map snd (armor_items p)))"
proof -
  have a: "length (slot_values p) = length (filter (\<lambda>it. \<not> skipped it) (contents (inventory p)))"
    unfolding slot_values_def by (simp only: length_concat_opt length_filter_enumerate)
  have b: "length (armor_values p) = length (filter (\<lambda>(i, it). \<not> skipped it) (armor_items p))"
    unfolding armor_values_def by (simp only: length_concat_opt)
  have c: "length (filter (\<lambda>(i, it). \<not> skipped it) (armor_items p)) = length (filter (\<lambda>it. \<not> skipped it) (map snd (armor_items p)))"
    by (simp add: filter_map comp_def case_prod_unfold)
  show ?thesis using a b c by (simp add: inventory_values_def)
qed

lemma length_ender_chest_values:
  "length (ender_chest_values p) = length (filter (\<lambda>it. \<not> skipped it) (ender_chest p))"
  unfolding ender_chest_values_def by (simp only: length_concat_opt length_filter_enumerate)

text \<open>
  Claim C2.  Whatever rows an identifier had in the inventory table (or in the
  ender-chest table), after a save the rows stored for it are exactly the rows built
  from the live state, one for each slot that is not passed over; the rows of every
  other identifier are as they were.
\<close>

theorem save_supersedes:
  "filter (\<lambda>r. r_xuid r = SqlText (player_xuid p)) (inventories (save_inventory p db)) = inventory_values p
   \<and> length (inventory_values p)
       = length (filter (\<lambda>it. \<not> skipped it) (contents (inventory p) @ map snd (armor_items p)))
   \<and> filter (\<lambda>r. r_xuid r \<noteq> SqlText (player_xuid p)) (inventories (save_inventory p db))
       = filter (\<lambda>r. r_xuid r \<noteq> SqlText (player_xuid p)) (inventories db)
   \<and> filter (\<lambda>r. e_xuid r = SqlText (player_xuid p)) (ender_chests (save_enderchest p db)) = ender_chest_values p
   \<and> length (ender_chest_values p) = length (filter (\<lambda>it. \<not> skipped it) (ender_chest p))
   \<and> filter (\<lambda>r. e_xuid r \<noteq> SqlText (player_xuid p)) (ender_chests (save_enderchest p db))
       = filter (\<lambda>r. e_xuid r \<noteq> SqlText (player_xuid p)) (ender_chests db)"
  using stored_inventory others_inventory stored_ender_chest others_ender_chest
    length_inventory_values length_ender_chest_values by blast

theorem save_supersedes_witness:
  "length (filter (\<lambda>r. r_xuid r = SqlText ''2535'') (inventories ex_db)) = 2
   \<and> length (filter (\<lambda>r. r_xuid r = SqlText ''2535'') (inventories (save_inventory ex_player ex_db))) = 2
   \<and> filter (\<lambda>r. r_xuid r \<noteq> SqlText ''2535'') (inventories (save_inventory ex_player ex_db)) = [ex_other_row]
   \<and> length (filter (\<lambda>r. e_xuid r = SqlText ''2535'') (ender_chests (save_enderchest ex_player ex_db))) = 1"
  using save_supersedes [of ex_player ex_db]
  by (simp add: ex_defs armor_items_def skipped_def)

section \<open>Saving twice\<close>

lemma save_inventory_twice: "save_inventory p (save_inventory p db) = save_inventory p db"
  by (simp add: save_inventory_def filter_neq_append_neq inventory_values_xuid)

text \<open>
  Claim C6.  Saving the same live state twice in a row leaves what \<open>get_inventory\<close>
  decodes (or raises), for any identifier and any interpreter, as it is after the
  first save.
\<close>

theorem save_inventory_idempotent:
  "get_inventory py x (save_inventory p (save_inventory p db)) = get_inventory py x (save_inventory p db)"
  by (simp add: save_inventory_twice)

theorem save_inventory_idempotent_witness:
  "get_inventory ex_py ''2535'' (save_inventory ex_player (save_inventory ex_player ex_db))
     = get_inventory ex_py ''2535'' (save_inventory ex_player ex_db)"
  using save_inventory_idempotent [of ex_py "''2535''" ex_player ex_db] by simp

section \<open>Join and leave\<close>

text \<open>
  Claim C5.  \<open>save_user\<close> leaves exactly one row for the identifier, holding the name
  and the join time given and the leave time 0, whatever row (and whatever leave
  time) was stored for it before; all other rows and tables are untouched.
\<close>

theorem save_user_replaces:
  "filter (\<lambda>u. xuid u = player_xuid p) (users (save_user p t db))
     = [\<lparr>xuid = player_xuid p, name = player_name p, last_join = t, last_leave = 0\<rparr>]
   \<and> filter (\<lambda>u. xuid u \<noteq> player_xuid p) (users (save_user p t db))
     = filter (\<lambda>u. xuid u \<noteq> player_xuid p) (users db)
   \<and> inventories (save_user p t db) = inventories db
   \<and> ender_chests (save_user p t db) = ender_chests db"
  by (simp add: save_user_def filter_neq_append_eq filter_neq_append_neq)

theorem save_user_replaces_witness:
  "filter (\<lambda>u. xuid u = ''2535'') (users ex_db)
     = [\<lparr>xuid = ''2535'', name = ''Steve'', last_join = 100, last_leave = 150\<rparr>]
   \<and> filter (\<lambda>u. xuid u = ''2535'') (users (save_user ex_player 400 ex_db))
     = [\<lparr>xuid = ''2535'', name = ''Steve'', last_join = 400, last_leave = 0\<rparr>]"
  using save_user_replaces [of ex_player 400 ex_db] by (simp add: ex_defs)

text \<open>
  Claim C9.  \<open>update_user_leave_time\<close> keeps the number and the identifiers of the
  rows, sets the leave time in the rows of the given identifier and changes no other
  row or table; for an identifier with no row the database is unchanged.
\<close>

theorem update_user_leave_time_only_matching:
  "length (users (update_user_leave_time x t db)) = length (users db)
   \<and> (\<forall>i < length (users db).
         users (update_user_leave_time x t db) ! i
           = (if xuid (users db ! i) = x then (users db ! i)\<lparr>last_leave := t\<rparr> else users db ! i))
   \<and> map xuid (users (update_user_leave_time x t db)) = map xuid (users db)
   \<and> inventories (update_user_leave_time x t db) = inventories db
   \<and> ender_chests (update_user_leave_time x t db) = ender_chests db
   \<and> (x \<notin> set (map xuid (users db)) \<longrightarrow> update_user_leave_time x t db = db)"
proof -
  have "x \<notin> set (map xuid (users db)) \<Longrightarrow>
        map (\<lambda>u. if xuid u = x then u\<lparr>last_leave := t\<rparr> else u) (users db) = users db"
    by (intro map_idI) auto
  moreover have "map xuid (map (\<lambda>u. if xuid u = x then u\<lparr>last_leave := t\<rparr> else u) (users db))
        = map xuid (users db)"
    by simp
  ultimately show ?thesis
    by (simp add: update_user_leave_time_def)
qed

theorem update_user_leave_time_only_matching_witness:
  "''404'' \<notin> set (map xuid (users ex_db))
   \<and> update_user_leave_time ''404'' 500 ex_db = ex_db
   \<and> (1::nat) < length (users ex_db)
   \<and> users (update_user_leave_time ''77'' 500 ex_db) ! 1
       = \<lparr>xuid = ''77'', name = ''steve_alt'', last_join = 200, last_leave = 500\<rparr>"
  using update_user_leave_time_only_matching [of "''404''" 500 ex_db]
    update_user_leave_time_only_matching [of "''77''" 500 ex_db]
  by (simp add: ex_defs)

section \<open>Empty slots\<close>

lemma concat_opt_empty:
  "\<forall>x \<in> set xs. skipped (snd x) \<Longrightarrow>
   concat (map (\<lambda>(i, it). case it of None \<Rightarrow> [] | Some item \<Rightarrow> if item_type item = AIR then [] else [f i item]) xs) = []"
  by (induction xs) (auto simp: skipped_def split: option.splits)

lemma slot_values_empty:
  "\<forall>it \<in> set (contents (inventory p)). skipped it \<Longrightarrow> slot_values p = []"
  unfolding slot_values_def by (rule concat_opt_empty) (auto simp: in_set_enumerate_eq)

lemma armor_values_empty:
  "\<forall>it \<in> set (map snd (armor_items p)). skipped it \<Longrightarrow> armor_values p = []"
  unfolding armor_values_def by (rule concat_opt_empty) simp

lemma ender_chest_values_empty:
  "\<forall>it \<in> set (ender_chest p). skipped it \<Longrightarrow> ender_chest_values p = []"
  unfolding ender_chest_values_def by (rule concat_opt_empty) (auto simp: in_set_enumerate_eq)

lemma get_inventory_no_rows:
  "filter (\<lambda>r. r_xuid r = SqlText x) (inventories db) = [] \<Longrightarrow> get_inventory py x db = Inr []"
  by (simp add: get_inventory_def fetchall_def appended_def)

lemma get_enderchest_no_rows:
  "filter (\<lambda>r. e_xuid r = SqlText x) (ender_chests db) = [] \<Longrightarrow> get_enderchest py x db = Inr []"
  by (simp add: get_enderchest_def fetchall_def appended_def)

text \<open>
  Claim C7.  After a save no row stored for the identifier has the air item kind, in
  either table; and when every slot of the live inventory (equipment included) is
  empty or air, no row at all is stored for the identifier and \<open>get_inventory\<close>
  returns the empty list, likewise for the ender chest.
\<close>

theorem empty_slots_never_stored:
  "(\<forall>r \<in> set (inventories (save_inventory p db)).
       r_xuid r = SqlText (player_xuid p) \<longrightarrow> r_type r \<noteq> SqlText AIR)
   \<and> (\<forall>r \<in> set (ender_chests (save_enderchest p db)).
       e_xuid r = SqlText (player_xuid p) \<longrightarrow> e_type r \<noteq> SqlText AIR)
   \<and> ((\<forall>it \<in> set (contents (inventory p) @ map snd (armor_items p)). skipped it) \<longrightarrow>
        filter (\<lambda>r. r_xuid r = SqlText (player_xuid p)) (inventories (save_inventory p db)) = []
        \<and> get_inventory py (player_xuid p) (save_inventory p db) = Inr [])
   \<and> ((\<forall>it \<in> set (ender_chest p). skipped it) \<longrightarrow>
        filter (\<lambda>r. e_xuid r = SqlText (player_xuid p)) (ender_chests (save_enderchest p db)) = []
        \<and> get_enderchest py (player_xuid p) (save_enderchest p db) = Inr [])"
proof -
  have a: "\<forall>r \<in> set (inventories (save_inventory p db)).
      r_xuid r = SqlText (player_xuid p) \<longrightarrow> r_type r \<noteq> SqlText AIR"
    by (auto simp: save_inventory_def dest: inventory_values_type)
  have b: "\<forall>r \<in> set (ender_chests (save_enderchest p db)).
      e_xuid r = SqlText (player_xuid p) \<longrightarrow> e_type r \<noteq> SqlText AIR"
    by (auto simp: save_enderchest_def dest: ender_chest_values_type)
  have c: "filter (\<lambda>r. r_xuid r = SqlText (player_xuid p)) (inventories (save_inventory p db)) = []
        \<and> get_inventory py (player_xuid p) (save_inventory p db) = Inr []"
    if "\<forall>it \<in> set (contents (inventory p) @ map snd (armor_items p)). skipped it"
  proof -
    from that have "inventory_values p = []"
      by (simp add: inventory_values_def slot_values_empty armor_values_empty)
    then have "filter (\<lambda>r. r_xuid r = SqlText (player_xuid p)) (inventories (save_inventory p db)) = []"
      using stored_inventory [of p db] by simp
    then show ?thesis by (simp add: get_inventory_no_rows)
  qed
  have d: "filter (\<lambda>r. e_xuid r = SqlText (player_xuid p)) (ender_chests (save_enderchest p db)) = []
        \<and> get_enderchest py (player_xuid p) (save_enderchest p db) = Inr []"
    if "\<forall>it \<in> set (ender_chest p). skipped it"
  proof -
    from that have "ender_chest_values p = []" by (rule ender_chest_values_empty)
    then have "filter (\<lambda>r. e_xuid r = SqlText (player_xuid p)) (ender_chests (save_enderchest p db)) = []"
      using stored_ender_chest [of p db] by simp
    then show ?thesis by (simp add: get_enderchest_no_rows)
  qed
  from a b c d show ?thesis by blast
qed

lemma ex_db_has_rows:
  "filter (\<lambda>r. r_xuid r = SqlText ''2535'') (inventories ex_db) \<noteq> []"
  "filter (\<lambda>r. e_xuid r = SqlText ''2535'') (ender_chests ex_db) \<noteq> []"
  by (simp_all add: ex_defs)

theorem empty_slots_never_stored_witness:
  "list_all skipped (contents (inventory ex_empty_player) @ map snd (armor_items ex_empty_player))
   \<and> list_all skipped (ender_chest ex_empty_player)
   \<and> filter (\<lambda>r. r_xuid r = SqlText ''2535'') (inventories ex_db) \<noteq> []
   \<and> filter (\<lambda>r. r_xuid r = SqlText ''2535'') (inventories (save_inventory ex_empty_player ex_db)) = []
   \<and> get_inventory ex_py ''2535'' (save_inventory ex_empty_player ex_db) = Inr []
   \<and> filter (\<lambda>r. e_xuid r = SqlText ''2535'') (ender_chests ex_db) \<noteq> []
   \<and> get_enderchest ex_py ''2535'' (save_enderchest ex_empty_player ex_db) = Inr []"
proof -
  have h: "(\<forall>it \<in> set (contents (inventory ex_empty_player) @ map snd (armor_items ex_empty_player)). skipped it)
      \<and> (\<forall>it \<in> set (ender_chest ex_empty_player). skipped it)
      \<and> player_xuid ex_empty_player = ''2535''"
    by (simp add: ex_empty_player_def ex_air_def armor_items_def skipped_def)
  with empty_slots_never_stored [of ex_empty_player ex_db ex_py] ex_db_has_rows
  show ?thesis by (simp add: list_all_iff)
qed

section \<open>Equipment slots\<close>

lemma armor_values_slot_types:
  "map r_slot_type (armor_values p)
     = map (\<lambda>x. SqlText (fst x)) (filter (\<lambda>x. \<not> skipped (snd x)) (armor_items p))"
proof -
  have "map r_slot_type (concat (map (\<lambda>(slot_type, it). case it of None \<Rightarrow> []
            | Some item \<Rightarrow> if item_type item = AIR then [] else [inventory_tuple p slot_type 0 item]) xs))
        = map (\<lambda>x. SqlText (fst x)) (filter (\<lambda>x. \<not> skipped (snd x)) xs)" for xs
    by (induction xs) (auto simp: skipped_def inventory_tuple_def split: option.splits)
  then show ?thesis by (simp add: armor_values_def)
qed

lemma armor_values_slot: "r \<in> set (armor_values p) \<Longrightarrow> r_slot r = SqlInteger 0"
  by (auto simp: armor_values_def inventory_tuple_def split: option.splits if_splits)

text \<open>
  Claim C8.  The equipment rows follow the slot rows; their container kinds are those
  of the occupied equipment slots, in the order helmet, chestplate, leggings, boots,
  offhand, and each records slot index 0.  For a player whose only item is a helmet,
  one row is stored, of kind \<open>helmet\<close> and slot index 0.
\<close>

theorem equipment_rows:
  "map fst (armor_items p) = [''helmet'', ''chestplate'', ''leggings'', ''boots'', ''offhand'']
   \<and> map r_slot_type (armor_values p)
        = map (\<lambda>x. SqlText (fst x)) (filter (\<lambda>x. \<not> skipped (snd x)) (armor_items p))
   \<and> subseq (map r_slot_type (armor_values p))
        (map SqlText [''helmet'', ''chestplate'', ''leggings'', ''boots'', ''offhand''])
   \<and> (\<forall>r \<in> set (armor_values p). r_slot r = SqlInteger 0)
   \<and> filter (\<lambda>r. r_xuid r = SqlText (player_xuid p)) (inventories (save_inventory p db))
        = slot_values p @ armor_values p
   \<and> ((\<forall>it \<in> set (contents (inventory p)). skipped it) \<and> helmet (inventory p) = Some h
        \<and> item_type h \<noteq> AIR \<and> skipped (chestplate (inventory p)) \<and> skipped (leggings (inventory p))
        \<and> skipped (boots (inventory p)) \<and> skipped (item_in_off_hand (inventory p))
       \<longrightarrow> (\<exists>row. filter (\<lambda>r. r_xuid r = SqlText (player_xuid p)) (inventories (save_inventory p db)) = [row]
                 \<and> row = inventory_tuple p ''helmet'' 0 h
                 \<and> r_slot_type row = SqlText ''helmet'' \<and> r_slot row = SqlInteger 0))"
proof -
  have a: "map fst (armor_items p) = [''helmet'', ''chestplate'', ''leggings'', ''boots'', ''offhand'']"
    by (simp add: armor_items_def)
  have "subseq (map (\<lambda>x. SqlText (fst x)) (filter (\<lambda>x. \<not> skipped (snd x)) (armor_items p)))
        (map (\<lambda>x. SqlText (fst x)) (armor_items p))"
    by (rule subseq_map) (rule subseq_filter_left)
  moreover have "map (\<lambda>x. SqlText (fst x)) (armor_items p)
      = map SqlText [''helmet'', ''chestplate'', ''leggings'', ''boots'', ''offhand'']"
    by (simp add: armor_items_def)
  ultimately have b: "subseq (map r_slot_type (armor_values p))
        (map SqlText [''helmet'', ''chestplate'', ''leggings'', ''boots'', ''offhand''])"
    by (simp only: armor_values_slot_types)
  have c: "filter (\<lambda>r. r_xuid r = SqlText (player_xuid p)) (inventories (save_inventory p db))
        = slot_values p @ armor_values p"
    using stored_inventory [of p db] by (simp add: inventory_values_def)
  have d: "\<exists>row. filter (\<lambda>r. r_xuid r = SqlText (player_xuid p)) (inventories (save_inventory p db)) = [row]
                 \<and> row = inventory_tuple p ''helmet'' 0 h
                 \<and> r_slot_type row = SqlText ''helmet'' \<and> r_slot row = SqlInteger 0"
    if "\<forall>it \<in> set (contents (inventory p)). skipped it" "helmet (inventory p) = Some h"
      "item_type h \<noteq> AIR" "skipped (chestplate (inventory p))" "skipped (leggings (inventory p))"
      "skipped (boots (inventory p))" "skipped (item_in_off_hand (inventory p))"
  proof -
    have "slot_values p = []" using that(1) by (rule slot_values_empty)
    moreover have "armor_values p = [inventory_tuple p ''helmet'' 0 h]"
      using that(2-7) by (auto simp: armor_values_def armor_items_def skipped_def split: option.splits)
    ultimately show ?thesis using c by (simp add: inventory_tuple_def)
  qed
  from a b c d armor_values_slot_types [of p] armor_values_slot [of _ p] show ?thesis by blast
qed

theorem equipment_rows_witness:
  "list_all skipped (contents (inventory ex_helmet_player))
   \<and> helmet (inventory ex_helmet_player) = Some ex_helmet \<and> item_type ex_helmet \<noteq> AIR
   \<and> map r_slot_type (filter (\<lambda>r. r_xuid r = SqlText (player_xuid ex_helmet_player))
          (inventories (save_inventory ex_helmet_player ex_db))) = [SqlText ''helmet'']
   \<and> map r_slot (filter (\<lambda>r. r_xuid r = SqlText (player_xuid ex_helmet_player))
          (inventories (save_inventory ex_helmet_player ex_db))) = [SqlInteger 0]"
proof -
  have h: "(\<forall>it \<in> set (contents (inventory ex_helmet_player)). skipped it)
      \<and> helmet (inventory ex_helmet_player) = Some ex_helmet
      \<and> item_type ex_helmet \<noteq> AIR \<and> skipped (chestplate (inventory ex_helmet_player))
      \<and> skipped (leggings (inventory ex_helmet_player))
      \<and> skipped (boots (inventory ex_helmet_player))
      \<and> skipped (item_in_off_hand (inventory ex_helmet_player))"
    by (simp add: ex_defs skipped_def)
  with equipment_rows [of ex_helmet_player ex_db ex_helmet]
  obtain row where "filter (\<lambda>r. r_xuid r = SqlText (player_xuid ex_helmet_player))
          (inventories (save_inventory ex_helmet_player ex_db)) = [row]"
    "r_slot_type row = SqlText ''helmet''" "r_slot row = SqlInteger 0"
    by blast
  with h show ?thesis by (simp add: list_all_iff)
qed

section \<open>Looking a user up by name\<close>

lemma search_users_set:
  "set (search_users_by_name pat db) = {u \<in> set (users db). name_matches pat u}"
  by (simp add: search_users_by_name_def)

lemma search_users_mset:
  "mset (search_users_by_name pat db) = filter_mset (name_matches pat) (mset (users db))"
  by (simp add: search_users_by_name_def)

lemma search_users_ordered:
  "sorted (map (\<lambda>u. - last_join u) (search_users_by_name pat db))"
  by (simp add: search_users_by_name_def)

lemma get_user_by_name_hd:
  "get_user_by_name pat db =
     (case search_users_by_name pat db of [] \<Rightarrow> None | row # _ \<Rightarrow> Some row)"
  by (simp add: get_user_by_name_def search_users_by_name_def)

lemma get_user_by_name_None:
  "get_user_by_name pat db = None \<longleftrightarrow> (\<forall>u \<in> set (users db). \<not> name_matches pat u)"
proof -
  have "get_user_by_name pat db = None \<longleftrightarrow> set (search_users_by_name pat db) = {}"
    by (simp add: get_user_by_name_hd split: list.splits)
  then show ?thesis by (auto simp: search_users_set)
qed

lemma get_user_by_name_latest:
  assumes "get_user_by_name pat db = Some u"
  shows "u \<in> set (users db) \<and> name_matches pat u
    \<and> (\<forall>v \<in> set (users db). name_matches pat v \<longrightarrow> last_join v \<le> last_join u)"
proof -
  from assms obtain rest where s: "search_users_by_name pat db = u # rest"
    by (auto simp: get_user_by_name_hd split: list.splits)
  then have "u \<in> set (search_users_by_name pat db)" by simp
  then have a: "u \<in> set (users db) \<and> name_matches pat u" by (simp add: search_users_set)
  have "\<forall>v \<in> set rest. - last_join u \<le> - last_join v"
    using search_users_ordered [of pat db] s by simp
  then have "\<forall>v \<in> set (search_users_by_name pat db). last_join v \<le> last_join u"
    using s by auto
  with a show ?thesis by (simp add: search_users_set)
qed

text \<open>
  Claim C4, at the input where it fails.  The stored name \<open>abc\<close> does not contain the
  pattern \<open>a_c\<close>, yet both lookups return its row: the underscore of the pattern
  reaches \<open>LIKE\<close> as a wildcard.
\<close>

theorem underscore_pattern_matches_other_name:
  "\<not> (\<exists>xs ys. LOWER ''abc'' = xs @ LOWER ''a_c'' @ ys)
   \<and> search_users_by_name ''a_c'' ex_abc_db
       = [\<lparr>xuid = ''1'', name = ''abc'', last_join = 5, last_leave = 0\<rparr>]
   \<and> get_user_by_name ''a_c'' ex_abc_db
       = Some \<lparr>xuid = ''1'', name = ''abc'', last_join = 5, last_leave = 0\<rparr>"
proof -
  have l: "LOWER ''abc'' = ''abc''" "LOWER ''a_c'' = ''a_c''" "LOWER ''%a_c%'' = ''%a_c%''"
    by (simp_all add: LOWER_def lower_char_def)
  have "\<not> (\<exists>xs ys. ''abc'' = xs @ ''a_c'' @ ys)"
  proof
    assume "\<exists>xs ys. ''abc'' = xs @ ''a_c'' @ ys"
    then obtain xs ys where e: "''abc'' = xs @ ''a_c'' @ ys" by blast
    then have "CHR ''_'' \<in> set (xs @ ''a_c'' @ ys)" by simp
    with e have "CHR ''_'' \<in> set ''abc''" by metis
    then show False by simp
  qed
  moreover have "name_matches ''a_c'' \<lparr>xuid = ''1'', name = ''abc'', last_join = 5, last_leave = 0\<rparr>"
    by (simp add: name_matches_def l c_string_def)
  ultimately show ?thesis
    by (simp add: l search_users_by_name_def get_user_by_name_def ex_abc_db_def)
qed

section \<open>Fetching and decoding a row\<close>

lemma fetch_inventory_row_Some:
  "fetch_inventory_row r = Some row \<longleftrightarrow>
     fetch_value (r_xuid r) = Some (r_xuid row) \<and> fetch_value (r_name r) = Some (r_name row)
     \<and> fetch_value (r_slot_type r) = Some (r_slot_type row) \<and> fetch_value (r_slot r) = Some (r_slot row)
     \<and> fetch_value (r_type r) = Some (r_type row) \<and> fetch_value (r_amount r) = Some (r_amount row)
     \<and> fetch_value (r_damage r) = Some (r_damage row)
     \<and> fetch_value (r_display_name r) = Some (r_display_name row)
     \<and> fetch_value (r_enchants r) = Some (r_enchants row) \<and> fetch_value (r_lore r) = Some (r_lore row)
     \<and> fetch_value (r_unbreakable r) = Some (r_unbreakable row)
     \<and> fetch_value (r_data r) = Some (r_data row)"
  by (cases row) (auto simp: fetch_inventory_row_def split: option.splits)

lemma fetch_ender_chest_row_Some:
  "fetch_ender_chest_row r = Some row \<longleftrightarrow>
     fetch_value (e_xuid r) = Some (e_xuid row) \<and> fetch_value (e_name r) = Some (e_name row)
     \<and> fetch_value (e_slot r) = Some (e_slot row)
     \<and> fetch_value (e_type r) = Some (e_type row) \<and> fetch_value (e_amount r) = Some (e_amount row)
     \<and> fetch_value (e_damage r) = Some (e_damage row)
     \<and> fetch_value (e_display_name r) = Some (e_display_name row)
     \<and> fetch_value (e_enchants r) = Some (e_enchants row) \<and> fetch_value (e_lore r) = Some (e_lore row)
     \<and> fetch_value (e_unbreakable r) = Some (e_unbreakable row)
     \<and> fetch_value (e_data r) = Some (e_data row)"
  by (cases row) (auto simp: fetch_ender_chest_row_def split: option.splits)

lemma those_map_Some:
  "those (map f xs) = Some ys \<longleftrightarrow> (\<forall>x \<in> set xs. f x \<noteq> None) \<and> ys = map (\<lambda>x. the (f x)) xs"
  by (induction xs arbitrary: ys) (auto split: option.splits)

lemma those_map_None:
  "those (map f xs) = None \<longleftrightarrow> (\<exists>x \<in> set xs. f x = None)"
  by (induction xs) (auto split: option.splits)

lemma fetchall_Inr:
  "fetchall f rows = Inr fetched \<longleftrightarrow> (\<forall>x \<in> set rows. f x \<noteq> None) \<and> fetched = map (\<lambda>x. the (f x)) rows"
proof (cases "those (map f rows)")
  case None
  then have "\<exists>x \<in> set rows. f x = None" by (simp add: those_map_None)
  with None show ?thesis by (auto simp: fetchall_def)
next
  case (Some ys)
  then have "(\<forall>x \<in> set rows. f x \<noteq> None) \<and> ys = map (\<lambda>x. the (f x)) rows"
    by (simp add: those_map_Some)
  with Some show ?thesis by (auto simp: fetchall_def)
qed

lemma fetchall_Inl:
  "fetchall f rows = Inl e \<longleftrightarrow> (\<exists>x \<in> set rows. f x = None) \<and> e = OperationalError"
proof (cases "those (map f rows)")
  case None
  then have "\<exists>x \<in> set rows. f x = None" by (simp add: those_map_None)
  with None show ?thesis by (auto simp: fetchall_def)
next
  case (Some ys)
  then have "\<forall>x \<in> set rows. f x \<noteq> None" by (simp add: those_map_Some)
  with Some show ?thesis by (auto simp: fetchall_def)
qed

lemma decode_inventory_row_fields:
  assumes "decode_inventory_row py row = Inr d"
  shows "d_enchants d = load_field (json_loads py) (json_loads_bytes py) (JObj []) (r_enchants row)"
    and "d_lore d = load_field (json_loads py) (json_loads_bytes py) (JArr []) (r_lore row)"
  using assms by (auto simp: decode_inventory_row_def split: sum.splits if_splits)

lemma decode_ender_chest_row_fields:
  assumes "decode_ender_chest_row py row = Inr d"
  shows "c_enchants d = load_field (json_loads py) (json_loads_bytes py) (JObj []) (e_enchants row)"
    and "c_lore d = load_field (json_loads py) (json_loads_bytes py) (JArr []) (e_lore row)"
  using assms by (auto simp: decode_ender_chest_row_def split: sum.splits if_splits)

lemma appended_filter:
  "appended (map g xs)
     = map (\<lambda>x. projr (g x)) (filter (\<lambda>x. case g x of Inl e \<Rightarrow> False | Inr d \<Rightarrow> True) xs)"
  by (induction xs) (auto simp: appended_def split: sum.splits)

lemma get_inventory_Inr:
  assumes "get_inventory py x db = Inr ds"
  shows "ds = map (\<lambda>r. projr (decode_inventory_row py (the (fetch_inventory_row r))))
               (filter (goes_through py) (filter (\<lambda>r. r_xuid r = SqlText x) (inventories db)))"
proof -
  let ?rows = "filter (\<lambda>r. r_xuid r = SqlText x) (inventories db)"
  from assms obtain fetched where f: "fetchall fetch_inventory_row ?rows = Inr fetched"
    and ds: "ds = appended (map (decode_inventory_row py) fetched)"
    by (auto simp: get_inventory_def split: sum.splits)
  from f have all: "\<forall>r \<in> set ?rows. fetch_inventory_row r \<noteq> None"
    and fetched: "fetched = map (\<lambda>r. the (fetch_inventory_row r)) ?rows"
    by (simp_all add: fetchall_Inr)
  have "filter (\<lambda>r. case decode_inventory_row py (the (fetch_inventory_row r)) of
                       Inl e \<Rightarrow> False | Inr d \<Rightarrow> True) ?rows
        = filter (goes_through py) ?rows"
    using all by (intro filter_cong refl) (auto simp: goes_through_def split: option.splits)
  then show ?thesis
    unfolding ds fetched by (simp only: map_map comp_def appended_filter [of "\<lambda>r. decode_inventory_row py (the (fetch_inventory_row r))", unfolded comp_def])
qed

lemma get_enderchest_Inr:
  assumes "get_enderchest py x db = Inr ds"
  shows "ds = map (\<lambda>r. projr (decode_ender_chest_row py (the (fetch_ender_chest_row r))))
               (filter (goes_through_chest py) (filter (\<lambda>r. e_xuid r = SqlText x) (ender_chests db)))"
proof -
  let ?rows = "filter (\<lambda>r. e_xuid r = SqlText x) (ender_chests db)"
  from assms obtain fetched where f: "fetchall fetch_ender_chest_row ?rows = Inr fetched"
    and ds: "ds = appended (map (decode_ender_chest_row py) fetched)"
    by (auto simp: get_enderchest_def split: sum.splits)
  from f have all: "\<forall>r \<in> set ?rows. fetch_ender_chest_row r \<noteq> None"
    and fetched: "fetched = map (\<lambda>r. the (fetch_ender_chest_row r)) ?rows"
    by (simp_all add: fetchall_Inr)
  have "filter (\<lambda>r. case decode_ender_chest_row py (the (fetch_ender_chest_row r)) of
                       Inl e \<Rightarrow> False | Inr d \<Rightarrow> True) ?rows
        = filter (goes_through_chest py) ?rows"
    using all by (intro filter_cong refl) (auto simp: goes_through_chest_def split: option.splits)
  then show ?thesis
    unfolding ds fetched by (simp only: map_map comp_def appended_filter [of "\<lambda>r. decode_ender_chest_row py (the (fetch_ender_chest_row r))", unfolded comp_def])
qed

text \<open>The call raises exactly when a value of one of the selected rows cannot be fetched.\<close>

lemma get_inventory_raises:
  "get_inventory py x db = Inl e \<longleftrightarrow>
     (\<exists>r \<in> set (inventories db). r_xuid r = SqlText x \<and> fetch_inventory_row r = None)
     \<and> e = OperationalError"
proof (cases "fetchall fetch_inventory_row (filter (\<lambda>r. r_xuid r = SqlText x) (inventories db))")
  case (Inl err)
  then have g: "get_inventory py x db = Inl err" by (simp add: get_inventory_def)
  from Inl have "(\<exists>r \<in> set (filter (\<lambda>r. r_xuid r = SqlText x) (inventories db)). fetch_inventory_row r = None)
      \<and> err = OperationalError"
    by (simp only: fetchall_Inl)
  with g show ?thesis by auto
next
  case (Inr fetched)
  then have g: "get_inventory py x db = Inr (appended (map (decode_inventory_row py) fetched))"
    by (simp add: get_inventory_def)
  from Inr have "\<forall>r \<in> set (filter (\<lambda>r. r_xuid r = SqlText x) (inventories db)). fetch_inventory_row r \<noteq> None"
    unfolding fetchall_Inr by blast
  with g show ?thesis by auto
qed

lemma get_enderchest_raises:
  "get_enderchest py x db = Inl e \<longleftrightarrow>
     (\<exists>r \<in> set (ender_chests db). e_xuid r = SqlText x \<and> fetch_ender_chest_row r = None)
     \<and> e = OperationalError"
proof (cases "fetchall fetch_ender_chest_row (filter (\<lambda>r. e_xuid r = SqlText x) (ender_chests db))")
  case (Inl err)
  then have g: "get_enderchest py x db = Inl err" by (simp add: get_enderchest_def)
  from Inl have "(\<exists>r \<in> set (filter (\<lambda>r. e_xuid r = SqlText x) (ender_chests db)). fetch_ender_chest_row r = None)
      \<and> err = OperationalError"
    by (simp only: fetchall_Inl)
  with g show ?thesis by auto
next
  case (Inr fetched)
  then have g: "get_enderchest py x db = Inr (appended (map (decode_ender_chest_row py) fetched))"
    by (simp add: get_enderchest_def)
  from Inr have "\<forall>r \<in> set (filter (\<lambda>r. e_xuid r = SqlText x) (ender_chests db)). fetch_ender_chest_row r \<noteq> None"
    unfolding fetchall_Inr by blast
  with g show ?thesis by auto
qed

section \<open>Rows of the declared types\<close>

lemma text_fetch:
  "text_or_null v \<Longrightarrow> fetch_value v = Some (expected_text v)"
  by (cases v) (simp_all add: text_or_null_def fetch_value_def expected_text_def)

lemma integer_fetch:
  "integer_or_null v \<Longrightarrow> fetch_value v \<noteq> None"
  by (cases v) (simp_all add: integer_or_null_def fetch_value_def)

lemma text_py_or:
  "text_or_null v \<Longrightarrow> py_or (expected_text v) (PyStr d) = expected_text_or d v"
  by (cases v) (simp_all add: text_or_null_def expected_text_def expected_text_or_def py_or_def truthy_def)

lemma text_load_field:
  "text_or_null v \<Longrightarrow>
   load_field (json_loads py) loads_bytes dflt (expected_text v) = expected_json py dflt v"
  by (cases v)
    (auto simp: text_or_null_def expected_text_def expected_json_def load_field_def truthy_def
      split: sum.splits)

lemma integer_int_unless_none:
  "integer_or_null v \<Longrightarrow> int_unless_none py (the (fetch_value v)) d = Inr (expected_int d v)"
  by (cases v)
    (simp_all add: integer_or_null_def fetch_value_def int_unless_none_def py_int_def expected_int_def)

lemma integer_unbreakable:
  "integer_or_null v \<Longrightarrow>
   (the (fetch_value v) \<noteq> PyNone \<and> truthy (the (fetch_value v))) = (expected_int 0 v \<noteq> 0)"
  by (cases v) (simp_all add: integer_or_null_def fetch_value_def truthy_def expected_int_def)

lemma integer_data:
  "integer_or_null v \<Longrightarrow>
   (if the (fetch_value v) = PyNone then Inr None
    else map_sum id Some (py_int py (the (fetch_value v))))
   = Inr (case v of SqlInteger i \<Rightarrow> Some i | _ \<Rightarrow> None)"
  by (cases v) (simp_all add: integer_or_null_def fetch_value_def py_int_def)

lemma declared_fetch:
  assumes "declared_types r"
  shows "fetch_inventory_row r =
     Some \<lparr>r_xuid = expected_text (r_xuid r), r_name = expected_text (r_name r),
           r_slot_type = expected_text (r_slot_type r), r_slot = the (fetch_value (r_slot r)),
           r_type = expected_text (r_type r), r_amount = the (fetch_value (r_amount r)),
           r_damage = the (fetch_value (r_damage r)),
           r_display_name = expected_text (r_display_name r),
           r_enchants = expected_text (r_enchants r), r_lore = expected_text (r_lore r),
           r_unbreakable = the (fetch_value (r_unbreakable r)),
           r_data = the (fetch_value (r_data r))\<rparr>"
  using assms integer_fetch [of "r_slot r"] integer_fetch [of "r_amount r"]
    integer_fetch [of "r_damage r"] integer_fetch [of "r_unbreakable r"] integer_fetch [of "r_data r"]
  by (auto simp: fetch_inventory_row_Some declared_types_def text_fetch)

lemma declared_decode:
  assumes "declared_types r"
  shows "decode_inventory_row py (the (fetch_inventory_row r)) = Inr (expected_dict py r)"
proof -
  from assms have t: "text_or_null (r_type r)" "text_or_null (r_display_name r)"
    "text_or_null (r_enchants r)" "text_or_null (r_lore r)"
    and i: "integer_or_null (r_slot r)" "integer_or_null (r_amount r)"
    "integer_or_null (r_damage r)" "integer_or_null (r_unbreakable r)" "integer_or_null (r_data r)"
    by (simp_all add: declared_types_def)
  show ?thesis
    by (simp add: declared_fetch [OF assms] decode_inventory_row_def expected_dict_def
        integer_int_unless_none [OF i(1)] integer_int_unless_none [OF i(2)]
        integer_int_unless_none [OF i(3)] integer_unbreakable [OF i(4)] integer_data [OF i(5)]
        text_py_or [OF t(1)] text_py_or [OF t(2)] text_load_field [OF t(3)] text_load_field [OF t(4)]
        split del: if_split cong del: if_weak_cong)
qed

lemma declared_goes_through: "declared_types r \<Longrightarrow> goes_through py r"
  using declared_decode [of r py] by (simp add: goes_through_def declared_fetch)

lemma declared_get_inventory:
  assumes "list_all declared_types (filter (\<lambda>r. r_xuid r = SqlText x) (inventories db))"
  shows "get_inventory py x db
           = Inr (map (expected_dict py) (filter (\<lambda>r. r_xuid r = SqlText x) (inventories db)))"
    and "get_inventory_printed py x db = []"
proof -
  let ?rows = "filter (\<lambda>r. r_xuid r = SqlText x) (inventories db)"
  from assms have d: "\<forall>r \<in> set ?rows. declared_types r" by (simp only: list_all_iff)
  then have "\<forall>r \<in> set ?rows. fetch_inventory_row r \<noteq> None" by (simp add: declared_fetch)
  then have f: "fetchall fetch_inventory_row ?rows = Inr (map (\<lambda>r. the (fetch_inventory_row r)) ?rows)"
    by (simp only: fetchall_Inr)
  have "map (\<lambda>r. decode_inventory_row py (the (fetch_inventory_row r))) ?rows
      = map (\<lambda>r. Inr (expected_dict py r)) ?rows"
    using d by (intro map_cong refl) (simp add: declared_decode)
  then have m: "map (decode_inventory_row py) (map (\<lambda>r. the (fetch_inventory_row r)) ?rows)
      = map (\<lambda>r. Inr (expected_dict py r)) ?rows"
    by (simp only: map_map comp_def)
  have a: "appended (map (\<lambda>r. Inr (f r)) xs) = map f xs" for f :: "'a \<Rightarrow> 'b" and xs
    by (induction xs) (simp_all add: appended_def)
  have p: "printed (map (\<lambda>r. Inr (f r)) xs) = []" for f :: "'a \<Rightarrow> 'b" and xs
    by (induction xs) (simp_all add: printed_def)
  show "get_inventory py x db = Inr (map (expected_dict py) ?rows)"
    by (simp only: get_inventory_def f sum.case m a)
  show "get_inventory_printed py x db = []"
    by (simp only: get_inventory_printed_def f sum.case m p)
qed

section \<open>Sentinel texts in the JSON columns\<close>

lemma json_loads_0: "json_loads py ''0'' = Inr (JInt 0)"
  by (simp add: json_loads_def eval_nat_numeral skip_ws_def ws_def match_number_def match_int_def match_frac_def
      match_exp_def is_digit_def too_many_digits_def nat_of_digits_def digit_val_def)

lemma json_loads_null: "json_loads py ''null'' = Inr JNull"
  by (simp add: json_loads_def eval_nat_numeral skip_ws_def ws_def)

lemma load_field_sentinel:
  "col \<in> {PyNone, PyStr ''null'', PyStr ''0'', PyStr []} \<Longrightarrow>
   load_field loads loads_bytes dflt col = dflt"
  by (auto simp: load_field_def truthy_def)

lemma fetch_sentinel:
  assumes "fetch_value v = Some col" "v \<in> {SqlNull, SqlText ''null'', SqlText ''0'', SqlText []}"
  shows "col \<in> {PyNone, PyStr ''null'', PyStr ''0'', PyStr []}"
  using assms by (auto simp: fetch_value_def)

lemma sentinel_inventory_row:
  assumes "goes_through py r"
  shows "(r_enchants r \<in> {SqlNull, SqlText ''null'', SqlText ''0'', SqlText []} \<longrightarrow>
            d_enchants (projr (decode_inventory_row py (the (fetch_inventory_row r)))) = JObj [])
       \<and> (r_lore r \<in> {SqlNull, SqlText ''null'', SqlText ''0'', SqlText []} \<longrightarrow>
            d_lore (projr (decode_inventory_row py (the (fetch_inventory_row r)))) = JArr [])"
proof -
  from assms obtain row d where row: "fetch_inventory_row r = Some row"
    and d: "decode_inventory_row py row = Inr d"
    by (auto simp: goes_through_def split: option.splits sum.splits)
  from row have f: "fetch_value (r_enchants r) = Some (r_enchants row)"
    "fetch_value (r_lore r) = Some (r_lore row)"
    by (simp_all add: fetch_inventory_row_Some)
  show ?thesis
    using fetch_sentinel [OF f(1)] fetch_sentinel [OF f(2)] decode_inventory_row_fields [OF d]
    by (simp add: row d load_field_sentinel)
qed

lemma sentinel_ender_chest_row:
  assumes "goes_through_chest py r"
  shows "(e_enchants r \<in> {SqlNull, SqlText ''null'', SqlText ''0'', SqlText []} \<longrightarrow>
            c_enchants (projr (decode_ender_chest_row py (the (fetch_ender_chest_row r)))) = JObj [])
       \<and> (e_lore r \<in> {SqlNull, SqlText ''null'', SqlText ''0'', SqlText []} \<longrightarrow>
            c_lore (projr (decode_ender_chest_row py (the (fetch_ender_chest_row r)))) = JArr [])"
proof -
  from assms obtain row d where row: "fetch_ender_chest_row r = Some row"
    and d: "decode_ender_chest_row py row = Inr d"
    by (auto simp: goes_through_chest_def split: option.splits sum.splits)
  from row have f: "fetch_value (e_enchants r) = Some (e_enchants row)"
    "fetch_value (e_lore r) = Some (e_lore row)"
    by (simp_all add: fetch_ender_chest_row_Some)
  show ?thesis
    using fetch_sentinel [OF f(1)] fetch_sentinel [OF f(2)] decode_ender_chest_row_fields [OF d]
    by (simp add: row d load_field_sentinel)
qed

lemma sentinel_get_inventory:
  assumes "get_inventory py x db = Inr ds"
  shows "length ds = length (filter (goes_through py) (filter (\<lambda>r. r_xuid r = SqlText x) (inventories db)))
     \<and> (\<forall>i < length ds.
          (r_enchants (filter (goes_through py) (filter (\<lambda>r. r_xuid r = SqlText x) (inventories db)) ! i)
             \<in> {SqlNull, SqlText ''null'', SqlText ''0'', SqlText []}
           \<longrightarrow> d_enchants (ds ! i) = JObj [])
        \<and> (r_lore (filter (goes_through py) (filter (\<lambda>r. r_xuid r = SqlText x) (inventories db)) ! i)
             \<in> {SqlNull, SqlText ''null'', SqlText ''0'', SqlText []}
           \<longrightarrow> d_lore (ds ! i) = JArr []))"
proof -
  let ?rows = "filter (goes_through py) (filter (\<lambda>r. r_xuid r = SqlText x) (inventories db))"
  have ds: "ds = map (\<lambda>r. projr (decode_inventory_row py (the (fetch_inventory_row r)))) ?rows"
    using assms by (rule get_inventory_Inr)
  have "goes_through py (?rows ! i)" if "i < length ?rows" for i
    using nth_mem [OF that] by simp
  then show ?thesis
    unfolding ds by (simp add: sentinel_inventory_row)
qed

lemma sentinel_get_enderchest:
  assumes "get_enderchest py x db = Inr ds"
  shows "length ds = length (filter (goes_through_chest py) (filter (\<lambda>r. e_xuid r = SqlText x) (ender_chests db)))
     \<and> (\<forall>i < length ds.
          (e_enchants (filter (goes_through_chest py) (filter (\<lambda>r. e_xuid r = SqlText x) (ender_chests db)) ! i)
             \<in> {SqlNull, SqlText ''null'', SqlText ''0'', SqlText []}
           \<longrightarrow> c_enchants (ds ! i) = JObj [])
        \<and> (e_lore (filter (goes_through_chest py) (filter (\<lambda>r. e_xuid r = SqlText x) (ender_chests db)) ! i)
             \<in> {SqlNull, SqlText ''null'', SqlText ''0'', SqlText []}
           \<longrightarrow> c_lore (ds ! i) = JArr []))"
proof -
  let ?rows = "filter (goes_through_chest py) (filter (\<lambda>r. e_xuid r = SqlText x) (ender_chests db))"
  have ds: "ds = map (\<lambda>r. projr (decode_ender_chest_row py (the (fetch_ender_chest_row r)))) ?rows"
    using assms by (rule get_enderchest_Inr)
  have "goes_through_chest py (?rows ! i)" if "i < length ?rows" for i
    using nth_mem [OF that] by simp
  then show ?thesis
    unfolding ds by (simp add: sentinel_ender_chest_row)
qed

lemma declared_chest_goes_through:
  assumes "declared_types_chest r"
  shows "goes_through_chest py r"
proof -
  from assms have t: "text_or_null (e_xuid r)" "text_or_null (e_name r)" "text_or_null (e_type r)"
    "text_or_null (e_display_name r)" "text_or_null (e_enchants r)" "text_or_null (e_lore r)"
    and i: "integer_or_null (e_slot r)" "integer_or_null (e_amount r)"
    "integer_or_null (e_damage r)" "integer_or_null (e_unbreakable r)" "integer_or_null (e_data r)"
    by (simp_all add: declared_types_chest_def)
  have f: "fetch_ender_chest_row r =
     Some \<lparr>e_xuid = expected_text (e_xuid r), e_name = expected_text (e_name r),
           e_slot = the (fetch_value (e_slot r)),
           e_type = expected_text (e_type r), e_amount = the (fetch_value (e_amount r)),
           e_damage = the (fetch_value (e_damage r)),
           e_display_name = expected_text (e_display_name r),
           e_enchants = expected_text (e_enchants r), e_lore = expected_text (e_lore r),
           e_unbreakable = the (fetch_value (e_unbreakable r)),
           e_data = the (fetch_value (e_data r))\<rparr>"
    using t i integer_fetch [of "e_slot r"] integer_fetch [of "e_amount r"]
      integer_fetch [of "e_damage r"] integer_fetch [of "e_unbreakable r"] integer_fetch [of "e_data r"]
    by (auto simp: fetch_ender_chest_row_Some text_fetch)
  show ?thesis
    by (simp add: goes_through_chest_def f decode_ender_chest_row_def
        integer_int_unless_none [OF i(1)] integer_int_unless_none [OF i(2)]
        integer_int_unless_none [OF i(3)] integer_data [OF i(5)]
        split del: if_split cong del: if_weak_cong)
qed

lemma declared_filter:
  "list_all P xs \<Longrightarrow> (\<And>x. P x \<Longrightarrow> Q x) \<Longrightarrow> filter Q xs = xs"
  by (induction xs) auto

lemma declared_get_enderchest:
  assumes "list_all declared_types_chest (filter (\<lambda>r. e_xuid r = SqlText x) (ender_chests db))"
  shows "\<exists>ds. get_enderchest py x db = Inr ds"
proof (cases "get_enderchest py x db")
  case (Inl e)
  then obtain r where "r \<in> set (ender_chests db)" "e_xuid r = SqlText x" "fetch_ender_chest_row r = None"
    unfolding get_enderchest_raises by blast
  moreover from this assms have "goes_through_chest py r"
    by (intro declared_chest_goes_through) (simp add: list_all_iff)
  ultimately show ?thesis by (simp add: goes_through_chest_def)
next
  case (Inr ds)
  then show ?thesis by simp
qed

text \<open>
  Claim C10.  Where the enchants or lore column of a stored row is NULL or one of the
  texts \<open>null\<close>, \<open>0\<close> and the empty text, the decoded field is the empty mapping,
  respectively the empty sequence, whatever the parser would make of the text (it
  reads \<open>0\<close> as the number 0 and \<open>null\<close> as null).  So it is for every dict returned
  by \<open>get_inventory\<close> and \<open>get_enderchest\<close>: the dicts stand, in order, for the
  rows that go through, and where all rows of the identifier hold values of the
  declared types there is one dict for each row.
\<close>

theorem sentinel_text_decodes_to_default:
  "(\<forall>loads loads_bytes dflt col. col \<in> {PyNone, PyStr ''null'', PyStr ''0'', PyStr []} \<longrightarrow>
       load_field loads loads_bytes dflt col = dflt)
   \<and> json_loads py ''0'' = Inr (JInt 0) \<and> json_loads py ''null'' = Inr JNull
   \<and> (\<forall>ds. get_inventory py x db = Inr ds \<longrightarrow>
        length ds = length (filter (goes_through py) (filter (\<lambda>r. r_xuid r = SqlText x) (inventories db)))
        \<and> (\<forall>i < length ds.
             (r_enchants (filter (goes_through py) (filter (\<lambda>r. r_xuid r = SqlText x) (inventories db)) ! i)
                \<in> {SqlNull, SqlText ''null'', SqlText ''0'', SqlText []}
              \<longrightarrow> d_enchants (ds ! i) = JObj [])
           \<and> (r_lore (filter (goes_through py) (filter (\<lambda>r. r_xuid r = SqlText x) (inventories db)) ! i)
                \<in> {SqlNull, SqlText ''null'', SqlText ''0'', SqlText []}
              \<longrightarrow> d_lore (ds ! i) = JArr [])))
   \<and> (list_all declared_types (filter (\<lambda>r. r_xuid r = SqlText x) (inventories db)) \<longrightarrow>
        (\<exists>ds. get_inventory py x db = Inr ds
           \<and> length ds = length (filter (\<lambda>r. r_xuid r = SqlText x) (inventories db))
           \<and> (\<forall>i < length ds.
                (r_enchants (filter (\<lambda>r. r_xuid r = SqlText x) (inventories db) ! i)
                   \<in> {SqlNull, SqlText ''null'', SqlText ''0'', SqlText []}
                 \<longrightarrow> d_enchants (ds ! i) = JObj [])
              \<and> (r_lore (filter (\<lambda>r. r_xuid r = SqlText x) (inventories db) ! i)
                   \<in> {SqlNull, SqlText ''null'', SqlText ''0'', SqlText []}
                 \<longrightarrow> d_lore (ds ! i) = JArr []))))
   \<and> (\<forall>ds. get_enderchest py x db = Inr ds \<longrightarrow>
        length ds = length (filter (goes_through_chest py) (filter (\<lambda>r. e_xuid r = SqlText x) (ender_chests db)))
        \<and> (\<forall>i < length ds.
             (e_enchants (filter (goes_through_chest py) (filter (\<lambda>r. e_xuid r = SqlText x) (ender_chests db)) ! i)
                \<in> {SqlNull, SqlText ''null'', SqlText ''0'', SqlText []}
              \<longrightarrow> c_enchants (ds ! i) = JObj [])
           \<and> (e_lore (filter (goes_through_chest py) (filter (\<lambda>r. e_xuid r = SqlText x) (ender_chests db)) ! i)
                \<in> {SqlNull, SqlText ''null'', SqlText ''0'', SqlText []}
              \<longrightarrow> c_lore (ds ! i) = JArr [])))
   \<and> (list_all declared_types_chest (filter (\<lambda>r. e_xuid r = SqlText x) (ender_chests db)) \<longrightarrow>
        (\<exists>ds. get_enderchest py x db = Inr ds
           \<and> length ds = length (filter (\<lambda>r. e_xuid r = SqlText x) (ender_chests db))
           \<and> (\<forall>i < length ds.
                (e_enchants (filter (\<lambda>r. e_xuid r = SqlText x) (ender_chests db) ! i)
                   \<in> {SqlNull, SqlText ''null'', SqlText ''0'', SqlText []}
                 \<longrightarrow> c_enchants (ds ! i) = JObj [])
              \<and> (e_lore (filter (\<lambda>r. e_xuid r = SqlText x) (ender_chests db) ! i)
                   \<in> {SqlNull, SqlText ''null'', SqlText ''0'', SqlText []}
                 \<longrightarrow> c_lore (ds ! i) = JArr []))))"
proof -
  let ?inv = "filter (\<lambda>r. r_xuid r = SqlText x) (inventories db)"
  let ?chest = "filter (\<lambda>r. e_xuid r = SqlText x) (ender_chests db)"
  have a: "\<forall>loads loads_bytes dflt col. col \<in> {PyNone, PyStr ''null'', PyStr ''0'', PyStr []} \<longrightarrow>
       load_field loads loads_bytes dflt col = dflt"
    using load_field_sentinel by blast
  have b: "\<exists>ds. get_inventory py x db = Inr ds \<and> length ds = length ?inv
           \<and> (\<forall>i < length ds.
                (r_enchants (?inv ! i) \<in> {SqlNull, SqlText ''null'', SqlText ''0'', SqlText []}
                 \<longrightarrow> d_enchants (ds ! i) = JObj [])
              \<and> (r_lore (?inv ! i) \<in> {SqlNull, SqlText ''null'', SqlText ''0'', SqlText []}
                 \<longrightarrow> d_lore (ds ! i) = JArr []))"
    if t: "list_all declared_types ?inv"
  proof -
    have g: "get_inventory py x db = Inr (map (expected_dict py) ?inv)"
      using t by (rule declared_get_inventory)
    have "filter (goes_through py) ?inv = ?inv"
      using t by (rule declared_filter) (rule declared_goes_through)
    with sentinel_get_inventory [OF g] g show ?thesis by simp
  qed
  have c: "\<exists>ds. get_enderchest py x db = Inr ds \<and> length ds = length ?chest
           \<and> (\<forall>i < length ds.
                (e_enchants (?chest ! i) \<in> {SqlNull, SqlText ''null'', SqlText ''0'', SqlText []}
                 \<longrightarrow> c_enchants (ds ! i) = JObj [])
              \<and> (e_lore (?chest ! i) \<in> {SqlNull, SqlText ''null'', SqlText ''0'', SqlText []}
                 \<longrightarrow> c_lore (ds ! i) = JArr []))"
    if t: "list_all declared_types_chest ?chest"
  proof -
    from declared_get_enderchest [OF t] obtain ds where g: "get_enderchest py x db = Inr ds"
      by blast
    have "filter (goes_through_chest py) ?chest = ?chest"
      using t by (rule declared_filter) (rule declared_chest_goes_through)
    with sentinel_get_enderchest [OF g] g show ?thesis by simp
  qed
  have b': "list_all declared_types ?inv \<longrightarrow>
        (\<exists>ds. get_inventory py x db = Inr ds \<and> length ds = length ?inv
           \<and> (\<forall>i < length ds.
                (r_enchants (?inv ! i) \<in> {SqlNull, SqlText ''null'', SqlText ''0'', SqlText []}
                 \<longrightarrow> d_enchants (ds ! i) = JObj [])
              \<and> (r_lore (?inv ! i) \<in> {SqlNull, SqlText ''null'', SqlText ''0'', SqlText []}
                 \<longrightarrow> d_lore (ds ! i) = JArr [])))"
    by (rule impI) (rule b)
  have c': "list_all declared_types_chest ?chest \<longrightarrow>
        (\<exists>ds. get_enderchest py x db = Inr ds \<and> length ds = length ?chest
           \<and> (\<forall>i < length ds.
                (e_enchants (?chest ! i) \<in> {SqlNull, SqlText ''null'', SqlText ''0'', SqlText []}
                 \<longrightarrow> c_enchants (ds ! i) = JObj [])
              \<and> (e_lore (?chest ! i) \<in> {SqlNull, SqlText ''null'', SqlText ''0'', SqlText []}
                 \<longrightarrow> c_lore (ds ! i) = JArr [])))"
    by (rule impI) (rule c)
  have d: "\<forall>ds. get_inventory py x db = Inr ds \<longrightarrow>
        length ds = length (filter (goes_through py) ?inv)
        \<and> (\<forall>i < length ds.
             (r_enchants (filter (goes_through py) ?inv ! i)
                \<in> {SqlNull, SqlText ''null'', SqlText ''0'', SqlText []}
              \<longrightarrow> d_enchants (ds ! i) = JObj [])
           \<and> (r_lore (filter (goes_through py) ?inv ! i)
                \<in> {SqlNull, SqlText ''null'', SqlText ''0'', SqlText []}
              \<longrightarrow> d_lore (ds ! i) = JArr []))"
    by (intro allI impI) (rule sentinel_get_inventory)
  have e: "\<forall>ds. get_enderchest py x db = Inr ds \<longrightarrow>
        length ds = length (filter (goes_through_chest py) ?chest)
        \<and> (\<forall>i < length ds.
             (e_enchants (filter (goes_through_chest py) ?chest ! i)
                \<in> {SqlNull, SqlText ''null'', SqlText ''0'', SqlText []}
              \<longrightarrow> c_enchants (ds ! i) = JObj [])
           \<and> (e_lore (filter (goes_through_chest py) ?chest ! i)
                \<in> {SqlNull, SqlText ''null'', SqlText ''0'', SqlText []}
              \<longrightarrow> c_lore (ds ! i) = JArr []))"
    by (intro allI impI) (rule sentinel_get_enderchest)
  show ?thesis
    by (rule conjI [OF a conjI [OF json_loads_0 conjI [OF json_loads_null
          conjI [OF d conjI [OF b' conjI [OF e c']]]]]])
qed

theorem sentinel_text_decodes_to_default_witness:
  "list_all declared_types_chest (filter (\<lambda>r. e_xuid r = SqlText ''2535'') (ender_chests ex_db))
   \<and> (0::nat) < length (filter (\<lambda>r. e_xuid r = SqlText ''2535'') (ender_chests ex_db))
   \<and> e_enchants (filter (\<lambda>r. e_xuid r = SqlText ''2535'') (ender_chests ex_db) ! 0) = SqlText ''0''
   \<and> e_lore (filter (\<lambda>r. e_xuid r = SqlText ''2535'') (ender_chests ex_db) ! 0) = SqlNull
   \<and> c_enchants (projr (get_enderchest ex_py ''2535'' ex_db) ! 0) = JObj []
   \<and> c_lore (projr (get_enderchest ex_py ''2535'' ex_db) ! 0) = JArr []
   \<and> list_all declared_types (filter (\<lambda>r. r_xuid r = SqlText ''77'') (inventories ex_db))
   \<and> (0::nat) < length (filter (\<lambda>r. r_xuid r = SqlText ''77'') (inventories ex_db))
   \<and> r_lore (filter (\<lambda>r. r_xuid r = SqlText ''77'') (inventories ex_db) ! 0) = SqlText ''null''
   \<and> d_lore (projr (get_inventory ex_py ''77'' ex_db) ! 0) = JArr []"
proof -
  let ?chest = "filter (\<lambda>r. e_xuid r = SqlText ''2535'') (ender_chests ex_db)"
  let ?inv = "filter (\<lambda>r. r_xuid r = SqlText ''77'') (inventories ex_db)"
  have h: "list_all declared_types_chest ?chest \<and> (0::nat) < length ?chest
      \<and> e_enchants (?chest ! 0) = SqlText ''0'' \<and> e_lore (?chest ! 0) = SqlNull
      \<and> list_all declared_types ?inv \<and> (0::nat) < length ?inv
      \<and> r_lore (?inv ! 0) = SqlText ''null''"
    by (simp add: ex_defs declared_types_def declared_types_chest_def text_or_null_def
        integer_or_null_def)
  note chest = sentinel_text_decodes_to_default [of ex_py "''2535''" ex_db,
      THEN conjunct2, THEN conjunct2, THEN conjunct2, THEN conjunct2, THEN conjunct2,
      THEN conjunct2, THEN mp, OF h [THEN conjunct1]]
  note inv = sentinel_text_decodes_to_default [of ex_py "''77''" ex_db,
      THEN conjunct2, THEN conjunct2, THEN conjunct2, THEN conjunct2, THEN conjunct1,
      THEN mp, OF h [THEN conjunct2, THEN conjunct2, THEN conjunct2, THEN conjunct2, THEN conjunct1]]
  from chest obtain cs where cs: "get_enderchest ex_py ''2535'' ex_db = Inr cs"
    "length cs = length ?chest"
    "\<forall>i < length cs.
       (e_enchants (?chest ! i) \<in> {SqlNull, SqlText ''null'', SqlText ''0'', SqlText []}
          \<longrightarrow> c_enchants (cs ! i) = JObj [])
       \<and> (e_lore (?chest ! i) \<in> {SqlNull, SqlText ''null'', SqlText ''0'', SqlText []}
          \<longrightarrow> c_lore (cs ! i) = JArr [])"
    by (elim exE conjE)
  from inv obtain ds where ds: "get_inventory ex_py ''77'' ex_db = Inr ds" "length ds = length ?inv"
    "\<forall>i < length ds.
       (r_enchants (?inv ! i) \<in> {SqlNull, SqlText ''null'', SqlText ''0'', SqlText []}
          \<longrightarrow> d_enchants (ds ! i) = JObj [])
       \<and> (r_lore (?inv ! i) \<in> {SqlNull, SqlText ''null'', SqlText ''0'', SqlText []}
          \<longrightarrow> d_lore (ds ! i) = JArr [])"
    by (elim exE conjE)
  from h cs(2) have "0 < length cs" by simp
  with cs(3) h have "c_enchants (cs ! 0) = JObj [] \<and> c_lore (cs ! 0) = JArr []"
    by simp
  moreover from h ds(2) have "0 < length ds" by simp
  with ds(3) h have "d_lore (ds ! 0) = JArr []"
    by simp
  ultimately show ?thesis using h cs(1) ds(1) by simp
qed

section \<open>Rows that do not decode\<close>




text \<open>
  Outside the declared types the call can raise, and a row can be passed over: a text
  that is not UTF-8 makes the fetch raise before the loop, and a text in the slot
  column makes \<open>int\<close> raise inside it, where the outer \<open>except\<close> prints the error
  and the loop goes on with the next row.
\<close>

lemma undecodable_text_raises:
  "get_inventory ex_py ''77'' ex_undecodable_db = Inl OperationalError"
  by code_simp

lemma text_in_slot_is_passed_over:
  "get_inventory ex_py ''77'' ex_text_slot_db = Inr [expected_dict ex_py ex_good_row]
   \<and> get_inventory_printed ex_py ''77'' ex_text_slot_db = [ValueError]"
  by code_simp



section \<open>Reading back what \<open>json.dumps\<close> wrote\<close>


lemma length_hex4 [simp]: "length (hex4 n) = 4"
  by (simp add: hex4_def)


lemma cons_char_Some [simp]: "cons_char u (Some (s, rest)) = Some (u # s, rest)"
  by (simp add: cons_char_def)






























lemma skip_ws_not_ws: "\<not> ws c \<Longrightarrow> skip_ws (c # cs) = c # cs"
  by (simp add: skip_ws_def)


lemma skip_ws_Nil [simp]: "skip_ws [] = []"
  by (simp add: skip_ws_def)











lemma ws_facts [simp]:
  "\<not> ws CHR '':''" "\<not> ws CHR ''}''" "\<not> ws CHR '',''" "\<not> ws DQ" "\<not> ws CHR '']''"
  "\<not> ws CHR ''{''" "\<not> ws CHR ''[''" "ws CHR '' ''"
  by (simp_all add: ws_def)















lemma encoded_Cons: "encode_basestring_ascii s = DQ # tl (encode_basestring_ascii s)"
  by (simp add: encode_basestring_ascii_def)

lemma skip_ws_encoded: "skip_ws (encode_basestring_ascii s @ rest) = encode_basestring_ascii s @ rest"
  by (simp add: encode_basestring_ascii_def skip_ws_not_ws)










section \<open>Save, then read\<close>












end
